theory Spec2Isabelle
  imports Complex_Main
begin

section \<open>Data model\<close>

text \<open>
  The RAPTOR engine of \<^verbatim>\<open>source/routing/raptor.cpp\<close>. Identifiers are dense indices
  into the read-only timetable arrays. \<^verbatim>\<open>DateTime\<close> is the ordered scalar of the
  engine (date and seconds of the day in one number); it is modelled as a natural
  number, \<open>+\<close> and \<open>-\<close> on it add and remove seconds, and \<open>-\<close> stops at \<open>0\<close>.
\<close>

type_synonym idx_t = nat
type_synonym DateTime = nat

datatype type_idx =
  vj | connection | connection_extension | connection_guarantee | uninitialized | depart

record type_retour =
  stop_time_idx :: idx_t
  arrival :: DateTime
  departure :: DateTime
  type :: type_idx
  rpid_embarquement :: idx_t

record StopTime =
  st_idx :: idx_t
  arrival_time :: nat
  departure_time :: nat
  vehicle_journey_idx :: idx_t
  route_point_idx :: idx_t
  local_traffic_zone :: nat
  pick_up_allowed :: bool
  drop_off_allowed :: bool

record RoutePoint =
  rp_idx :: idx_t
  route_idx :: idx_t
  order :: nat
  stop_point_idx :: idx_t

record Route =
  r_idx :: idx_t
  line_idx :: idx_t
  mode_type_idx :: idx_t
  r_external_code :: string
  vehicle_journey_list :: "idx_t list"
  route_point_list :: "idx_t list"

record StopPoint =
  sp_route_point_list :: "idx_t list"

record StopArea =
  stop_point_list :: "idx_t list"

record VehicleJourney =
  validity_pattern_idx :: idx_t
  stop_time_list :: "idx_t list"

record Line =
  l_external_code :: string

record ModeType =
  m_external_code :: string

type_synonym ValidityPattern = "bool list"

record Connection =
  destination_stop_point_idx :: idx_t
  fp_duration :: nat

datatype ConnectionKind = ConnectionKind_extension | ConnectionKind_guarantee

record RoutePointConnection =
  departure_route_point_idx :: idx_t
  destination_route_point_idx :: idx_t
  length_rpc :: nat
  connection_kind :: ConnectionKind

record Data =
  routes :: "Route list"
  route_points :: "RoutePoint list"
  stop_points :: "StopPoint list"
  stop_areas :: "StopArea list"
  stop_times :: "StopTime list"
  vehicle_journeys :: "VehicleJourney list"
  lines :: "Line list"
  mode_types :: "ModeType list"
  validity_patterns :: "ValidityPattern list"
  foot_path :: "Connection list"
  footpath_index :: "(nat \<times> nat) list"
  footpath_rp_forward :: "(idx_t \<times> RoutePointConnection) list"
  footpath_rp_backward :: "(idx_t \<times> RoutePointConnection) list"
  retour_constant :: "type_retour list"
  retour_constant_reverse :: "type_retour list"

record Departure_Type =
  dep_rpidx :: idx_t
  dep_arrival :: DateTime
  dep_departure :: DateTime

text \<open>
  The destination tracker \<^verbatim>\<open>best_dest\<close>: the engine reads its fields \<^verbatim>\<open>best_now\<close> and
  \<^verbatim>\<open>best_now_rpid\<close>; whatever else it holds is the extension part of the record.
\<close>

record best_dest =
  best_now :: type_retour
  best_now_rpid :: idx_t

text \<open>
  What \<^verbatim>\<open>raptor.cpp\<close> calls and \<^verbatim>\<open>raptor.h\<close> and the other units define: the
  sentinels and the methods of \<^verbatim>\<open>DateTime\<close>, the trip searches, the validity check,
  the methods of the destination tracker, the seeding of departures and the default
  of the argument \<^verbatim>\<open>global_pruning\<close>. They are
  parameters of the model; every theorem below holds for all of them.
\<close>

record 'b externals =
  invalid_idx :: idx_t
  global_pruning_default :: bool
  DateTime_inf :: DateTime
  DateTime_min :: DateTime
  DateTime_update :: "DateTime \<Rightarrow> nat \<Rightarrow> DateTime"
  DateTime_updatereverse :: "DateTime \<Rightarrow> nat \<Rightarrow> DateTime"
  DateTime_date :: "DateTime \<Rightarrow> nat"
  DateTime_make :: "nat \<Rightarrow> nat \<Rightarrow> DateTime"
  DateTime_plus_double :: "DateTime \<Rightarrow> real \<Rightarrow> DateTime"
  DateTime_minus_double :: "DateTime \<Rightarrow> real \<Rightarrow> DateTime"
  earliest_trip :: "Route \<Rightarrow> nat \<Rightarrow> DateTime \<Rightarrow> Data \<Rightarrow> int"
  tardiest_trip :: "Route \<Rightarrow> nat \<Rightarrow> DateTime \<Rightarrow> Data \<Rightarrow> int"
  check2 :: "ValidityPattern \<Rightarrow> nat \<Rightarrow> bool"
  reinit :: "'b best_dest_scheme \<Rightarrow> nat \<Rightarrow> DateTime \<Rightarrow> bool \<Rightarrow> 'b best_dest_scheme"
  ajouter_destination :: "'b best_dest_scheme \<Rightarrow> idx_t \<Rightarrow> real \<Rightarrow> 'b best_dest_scheme"
  ajouter_best ::
    "'b best_dest_scheme \<Rightarrow> idx_t \<Rightarrow> type_retour \<Rightarrow> nat \<Rightarrow> bool \<Rightarrow> bool \<times> 'b best_dest_scheme"
  ajouter_best_reverse ::
    "'b best_dest_scheme \<Rightarrow> idx_t \<Rightarrow> type_retour \<Rightarrow> nat \<Rightarrow> bool \<times> 'b best_dest_scheme"
  getDepartures ::
    "(idx_t \<times> real) list \<Rightarrow> DateTime \<Rightarrow> bool \<Rightarrow> Data \<Rightarrow> Departure_Type list"
  getDepartures_retour ::
    "(idx_t \<times> real) list \<Rightarrow> (idx_t \<times> real) list \<Rightarrow> bool \<Rightarrow> type_retour list list \<Rightarrow> Data
      \<Rightarrow> Departure_Type list"

text \<open>The mutable state of one engine instance.\<close>

record 'b RAPTOR =
  retour :: "type_retour list list"
  best :: "type_retour list"
  Q :: "int list"
  marked_rp :: "bool list"
  marked_sp :: "bool list"
  routes_valides :: "bool list"
  count :: nat
  b_dest :: "'b best_dest_scheme"

definition int_max :: int where
  "int_max = 2147483647"

definition uint32_max :: nat where
  "uint32_max = 4294967295"

subsection \<open>The constructors of a label\<close>

text \<open>
  Modelled from the spec: the four constructors of \<^verbatim>\<open>type_retour\<close> are declared in
  \<^verbatim>\<open>raptor.h\<close>, which is not among the sources. A label built from a stop-time is a
  \<open>vj\<close> label whose time in the direction of the search is the given datetime (the
  arrival clockwise, the departure otherwise), the other time being that datetime
  rolled to the other time of the stop-time; a label built from two datetimes is a
  \<open>depart\<close> seed; with a route-point it is a walking \<open>connection\<close>; with a route-point
  and a type it has that type.
\<close>

definition type_retour_st ::
  "'b externals \<Rightarrow> StopTime \<Rightarrow> DateTime \<Rightarrow> idx_t \<Rightarrow> bool \<Rightarrow> type_retour" where
  "type_retour_st x st date_time embarquement clockwise =
     (if clockwise then
        \<lparr>stop_time_idx = st_idx st, arrival = date_time,
         departure = DateTime_update x date_time (departure_time st),
         type = vj, rpid_embarquement = embarquement\<rparr>
      else
        \<lparr>stop_time_idx = st_idx st,
         arrival = DateTime_updatereverse x date_time (arrival_time st),
         departure = date_time, type = vj, rpid_embarquement = embarquement\<rparr>)"

definition type_retour_depart :: "'b externals \<Rightarrow> DateTime \<Rightarrow> DateTime \<Rightarrow> type_retour" where
  "type_retour_depart x a dp =
     \<lparr>stop_time_idx = invalid_idx x, arrival = a, departure = dp, type = depart,
      rpid_embarquement = invalid_idx x\<rparr>"

definition type_retour_typed ::
  "'b externals \<Rightarrow> DateTime \<Rightarrow> DateTime \<Rightarrow> idx_t \<Rightarrow> type_idx \<Rightarrow> type_retour" where
  "type_retour_typed x a dp rp ty =
     \<lparr>stop_time_idx = invalid_idx x, arrival = a, departure = dp, type = ty,
      rpid_embarquement = rp\<rparr>"

definition type_retour_connection ::
  "'b externals \<Rightarrow> DateTime \<Rightarrow> DateTime \<Rightarrow> idx_t \<Rightarrow> type_retour" where
  "type_retour_connection x a dp rp = type_retour_typed x a dp rp connection"

section \<open>The route scan: \<^verbatim>\<open>store_better\<close>\<close>

text \<open>
  \<^verbatim>\<open>raptor_visitor::store_better\<close> and \<^verbatim>\<open>raptor_reverse_visitor::store_better\<close>. The
  result is the returned flag, the working datetime (updated in place in the source)
  and the new state.
\<close>

definition raptor_visitor_store_better ::
  "'b externals \<Rightarrow> Data \<Rightarrow> idx_t \<Rightarrow> DateTime \<Rightarrow> type_retour \<Rightarrow> StopTime \<Rightarrow> idx_t
    \<Rightarrow> 'b RAPTOR \<Rightarrow> bool \<times> DateTime \<times> 'b RAPTOR" where
  "raptor_visitor_store_better x d rpid working_date_time bound st embarquement s =
     (let wdt = DateTime_update x working_date_time (arrival_time st) in
      if wdt < arrival bound \<and> drop_off_allowed st then
        (let s1 = s\<lparr>retour := (retour s)[count s :=
                     (retour s ! count s)[rpid := type_retour_st x st wdt embarquement True]]\<rparr>;
             s2 = s1\<lparr>best := (best s1)[rpid := retour s1 ! count s1 ! rpid]\<rparr>;
             (absorbed, bd) =
               ajouter_best x (b_dest s2) rpid (retour s2 ! count s2 ! rpid) (count s2) True;
             s3 = s2\<lparr>b_dest := bd\<rparr>
         in if \<not> absorbed then
              (False, wdt,
               s3\<lparr>marked_rp := (marked_rp s3)[rpid := True],
                  marked_sp := (marked_sp s3)[stop_point_idx (route_points d ! rpid) := True]\<rparr>)
            else (True, wdt, s3))
      else if wdt = arrival bound \<and> type (retour s ! (count s - 1) ! rpid) = uninitialized then
        (let r = type_retour_st x st wdt embarquement True;
             (accepted, bd) = ajouter_best x (b_dest s) rpid r (count s) True;
             s1 = s\<lparr>b_dest := bd\<rparr>
         in if accepted then
              (True, wdt,
               s1\<lparr>retour := (retour s1)[count s1 := (retour s1 ! count s1)[rpid := r]],
                  best := (best s1)[rpid := r]\<rparr>)
            else (True, wdt, s1))
      else (True, wdt, s))"

definition raptor_reverse_visitor_store_better ::
  "'b externals \<Rightarrow> Data \<Rightarrow> idx_t \<Rightarrow> DateTime \<Rightarrow> type_retour \<Rightarrow> StopTime \<Rightarrow> idx_t
    \<Rightarrow> 'b RAPTOR \<Rightarrow> bool \<times> DateTime \<times> 'b RAPTOR" where
  "raptor_reverse_visitor_store_better x d rpid working_date_time bound st embarquement s =
     (let wdt = DateTime_updatereverse x working_date_time (departure_time st) in
      if wdt > departure bound \<and> pick_up_allowed st then
        (let s1 = s\<lparr>retour := (retour s)[count s :=
                     (retour s ! count s)[rpid := type_retour_st x st wdt embarquement False]]\<rparr>;
             s2 = s1\<lparr>best := (best s1)[rpid := retour s1 ! count s1 ! rpid]\<rparr>;
             (absorbed, bd) =
               ajouter_best_reverse x (b_dest s2) rpid (retour s2 ! count s2 ! rpid) (count s2);
             s3 = s2\<lparr>b_dest := bd\<rparr>
         in if \<not> absorbed then
              (False, wdt,
               s3\<lparr>marked_rp := (marked_rp s3)[rpid := True],
                  marked_sp := (marked_sp s3)[stop_point_idx (route_points d ! rpid) := True]\<rparr>)
            else (True, wdt, s3))
      else if wdt = departure bound \<and> type (retour s ! (count s - 1) ! rpid) = uninitialized then
        (let r = type_retour_st x st wdt embarquement False;
             (accepted, bd) = ajouter_best_reverse x (b_dest s) rpid r (count s);
             s1 = s\<lparr>b_dest := bd\<rparr>
         in if accepted then
              (True, wdt,
               s1\<lparr>retour := (retour s1)[count s1 := (retour s1 ! count s1)[rpid := r]]\<rparr>)
            else (True, wdt, s1))
      else (True, wdt, s))"

section \<open>The footpath relaxer\<close>

text \<open>
  The two direction visitors of \<^verbatim>\<open>foot_path\<close>: \<^verbatim>\<open>worst\<close>, \<^verbatim>\<open>comp\<close> (strict
  improvement), \<^verbatim>\<open>combine\<close>, the member pointer \<^verbatim>\<open>instant\<close> and \<^verbatim>\<open>clockwise\<close>.
\<close>

datatype walking_v = walking_visitor | walking_backwards_visitor

fun worst :: "'b externals \<Rightarrow> walking_v \<Rightarrow> DateTime" where
  "worst x walking_visitor = DateTime_inf x"
| "worst x walking_backwards_visitor = DateTime_min x"

fun comp :: "walking_v \<Rightarrow> 'a::linorder \<Rightarrow> 'a \<Rightarrow> bool" where
  "comp walking_visitor a b = (a < b)"
| "comp walking_backwards_visitor a b = (a > b)"

fun combine :: "walking_v \<Rightarrow> DateTime \<Rightarrow> nat \<Rightarrow> DateTime" where
  "combine walking_visitor a b = a + b"
| "combine walking_backwards_visitor a b = a - b"

fun instant :: "walking_v \<Rightarrow> type_retour \<Rightarrow> DateTime" where
  "instant walking_visitor l = arrival l"
| "instant walking_backwards_visitor l = departure l"

fun clockwise :: "walking_v \<Rightarrow> bool" where
  "clockwise walking_visitor = True"
| "clockwise walking_backwards_visitor = False"

text \<open>The set bits of a bitset, in ascending order (\<^verbatim>\<open>find_first\<close>, \<^verbatim>\<open>find_next\<close>).\<close>

definition set_bits :: "bool list \<Rightarrow> nat list" where
  "set_bits bs = filter (\<lambda>i. bs ! i) [0..<length bs]"

text \<open>
  Step 1 of \<^verbatim>\<open>foot_path\<close> at one marked stop point: the search of the pivot
  \<^verbatim>\<open>best_rp\<close> among the route points of the stop point (lines 117 to 124).
\<close>

definition best_rp_step ::
  "walking_v \<Rightarrow> 'b RAPTOR \<Rightarrow> DateTime \<times> idx_t \<Rightarrow> idx_t \<Rightarrow> DateTime \<times> idx_t" where
  "best_rp_step v s acc rpidx =
     (case acc of (best_arrival, best_rp) \<Rightarrow>
        if (type (retour s ! count s ! rpidx) = vj \<or> type (retour s ! count s ! rpidx) = depart)
           \<and> comp v (arrival (retour s ! count s ! rpidx)) best_arrival
        then (arrival (retour s ! count s ! rpidx), rpidx)
        else (best_arrival, best_rp))"

definition find_best_rp ::
  "'b externals \<Rightarrow> walking_v \<Rightarrow> 'b RAPTOR \<Rightarrow> idx_t list \<Rightarrow> DateTime \<times> idx_t" where
  "find_best_rp x v s rps = foldl (best_rp_step v s) (worst x v, invalid_idx x) rps"

text \<open>
  The installation of a walking label at a route point, shared by the two marking loops
  (lines 130 to 137 and 160 to 167): \<^verbatim>\<open>best\<close> and the current round get the label, the
  destination tracker is offered it, and the queue of the route is tightened unless the
  tracker absorbed it.
\<close>

definition install_walking ::
  "'b externals \<Rightarrow> Data \<Rightarrow> walking_v \<Rightarrow> idx_t \<Rightarrow> type_retour \<Rightarrow> 'b RAPTOR \<Rightarrow> 'b RAPTOR" where
  "install_walking x d v rpidx nRetour s =
     (let s1 = s\<lparr>best := (best s)[rpidx := nRetour]\<rparr>;
          s2 = s1\<lparr>retour := (retour s1)[count s1 := (retour s1 ! count s1)[rpidx := nRetour]]\<rparr>;
          route_point = route_points d ! rpidx;
          (absorbed, bd) = ajouter_best x (b_dest s2) rpidx nRetour (count s2) (clockwise v);
          s3 = s2\<lparr>b_dest := bd\<rparr>
      in if \<not> absorbed \<and> comp v (int (order route_point)) (Q s3 ! route_idx route_point)
         then s3\<lparr>Q := (Q s3)[route_idx route_point := int (order route_point)]\<rparr>
         else s3)"

text \<open>Step 3: the other route points of the same stop point (lines 128 to 139).\<close>

definition mark_same_stop ::
  "'b externals \<Rightarrow> Data \<Rightarrow> walking_v \<Rightarrow> DateTime \<Rightarrow> idx_t \<Rightarrow> 'b RAPTOR \<Rightarrow> idx_t \<Rightarrow> 'b RAPTOR" where
  "mark_same_stop x d v best_departure best_rp s rpidx =
     (if rpidx \<noteq> best_rp \<and> comp v best_departure (instant v (best s ! rpidx))
      then install_walking x d v rpidx
             (type_retour_connection x best_departure best_departure best_rp) s
      else s)"

text \<open>
  Step 4: one route point of the destination of one footpath (lines 154 to 169). The
  pair \<open>(prec_duration, next)\<close> is the duration cache of the source.
\<close>

definition mark_footpath_rp ::
  "'b externals \<Rightarrow> Data \<Rightarrow> walking_v \<Rightarrow> idx_t \<Rightarrow> DateTime \<Rightarrow> nat
    \<Rightarrow> (int \<times> DateTime) \<times> 'b RAPTOR \<Rightarrow> idx_t \<Rightarrow> (int \<times> DateTime) \<times> 'b RAPTOR" where
  "mark_footpath_rp x d v best_rp previous dur acc destination_rp =
     (case acc of ((prec_duration, next), s) \<Rightarrow>
        if best_rp \<noteq> destination_rp then
          (let (prec_duration', next') =
                 (if int dur \<noteq> prec_duration then (int dur, combine v previous dur)
                  else (prec_duration, next))
           in if comp v next' (instant v (best s ! destination_rp))
                 \<or> next' = instant v (best s ! destination_rp)
              then ((prec_duration', next'),
                    install_walking x d v destination_rp
                      (type_retour_connection x next' next' best_rp) s)
              else ((prec_duration', next'), s))
        else ((prec_duration, next), s))"

definition mark_footpath ::
  "'b externals \<Rightarrow> Data \<Rightarrow> walking_v \<Rightarrow> idx_t \<Rightarrow> DateTime
    \<Rightarrow> (int \<times> DateTime) \<times> 'b RAPTOR \<Rightarrow> Connection \<Rightarrow> (int \<times> DateTime) \<times> 'b RAPTOR" where
  "mark_footpath x d v best_rp previous acc it =
     foldl (mark_footpath_rp x d v best_rp previous (fp_duration it)) acc
       (sp_route_point_list (stop_points d ! destination_stop_point_idx it))"

text \<open>
  One marked stop point. The shared iterator \<^verbatim>\<open>it\<close> of the source stands at
  \<^verbatim>\<open>index.first\<close> when the slice is walked (it is moved by \<^verbatim>\<open>index.first - last\<close> from
  \<^verbatim>\<open>last\<close>), so the slice is the \<^verbatim>\<open>index.second\<close> footpaths from there.
\<close>

definition foot_path_sp ::
  "'b externals \<Rightarrow> Data \<Rightarrow> walking_v \<Rightarrow> 'b RAPTOR \<Rightarrow> idx_t \<Rightarrow> 'b RAPTOR" where
  "foot_path_sp x d v s spidx =
     (let rps = sp_route_point_list (stop_points d ! spidx);
          (best_arrival, best_rp) = find_best_rp x v s rps
      in if best_rp \<noteq> invalid_idx x then
           (let best_departure = combine v best_arrival 120;
                s1 = foldl (mark_same_stop x d v best_departure best_rp) s rps;
                index = footpath_index d ! spidx;
                previous = instant v (retour s1 ! count s1 ! best_rp);
                slice = take (snd index) (drop (fst index) (foot_path d))
            in snd (foldl (mark_footpath x d v best_rp previous) ((- 1, worst x v), s1) slice))
         else s)"

definition foot_path_run :: "'b externals \<Rightarrow> Data \<Rightarrow> walking_v \<Rightarrow> 'b RAPTOR \<Rightarrow> 'b RAPTOR" where
  "foot_path_run x d v s = foldl (foot_path_sp x d v) s (set_bits (marked_sp s))"

definition marcheapied :: "'b externals \<Rightarrow> Data \<Rightarrow> 'b RAPTOR \<Rightarrow> 'b RAPTOR" where
  "marcheapied x d s = foot_path_run x d walking_visitor s"

definition marcheapiedreverse :: "'b externals \<Rightarrow> Data \<Rightarrow> 'b RAPTOR \<Rightarrow> 'b RAPTOR" where
  "marcheapiedreverse x d s = foot_path_run x d walking_backwards_visitor s"

section \<open>The route-path connection relaxer\<close>

text \<open>The entries of a multimap under one key, in their order (\<^verbatim>\<open>equal_range\<close>).\<close>

definition equal_range :: "('k \<times> 'v) list \<Rightarrow> 'k \<Rightarrow> ('k \<times> 'v) list" where
  "equal_range m k = filter (\<lambda>kv. fst kv = k) m"

definition connection_forward_step ::
  "'b externals \<Rightarrow> idx_t \<Rightarrow> 'b RAPTOR \<times> idx_t list \<Rightarrow> idx_t \<times> RoutePointConnection
    \<Rightarrow> 'b RAPTOR \<times> idx_t list" where
  "connection_forward_step x rp acc idx_rpc =
     (case acc of (s, to_mark) \<Rightarrow>
        (let rpc = snd idx_rpc;
             dt = arrival (retour s ! count s ! rp) + length_rpc rpc
         in if type (retour s ! count s ! rp) = vj
               \<and> dt < arrival (best s ! destination_route_point_idx rpc)
            then
              (let ty = (if connection_kind rpc = ConnectionKind_extension
                         then connection_extension else connection_guarantee);
                   s1 = s\<lparr>retour := (retour s)[count s :=
                          (retour s ! count s)[destination_route_point_idx rpc :=
                             type_retour_typed x dt dt rp ty]]\<rparr>;
                   s2 = s1\<lparr>best := (best s1)[destination_route_point_idx rpc :=
                          retour s1 ! count s1 ! destination_route_point_idx rpc]\<rparr>
               in (s2, to_mark @ [destination_route_point_idx rpc]))
            else (s, to_mark)))"

definition mark_connection_forward :: "Data \<Rightarrow> 'b RAPTOR \<Rightarrow> idx_t \<Rightarrow> 'b RAPTOR" where
  "mark_connection_forward d s rp =
     (let s1 = s\<lparr>marked_rp := (marked_rp s)[rp := True]\<rparr>;
          route_point = route_points d ! rp
      in if Q s1 ! route_idx route_point > int (order route_point)
         then s1\<lparr>Q := (Q s1)[route_idx route_point := int (order route_point)]\<rparr>
         else s1)"

definition route_path_connections_forward :: "'b externals \<Rightarrow> Data \<Rightarrow> 'b RAPTOR \<Rightarrow> 'b RAPTOR" where
  "route_path_connections_forward x d s =
     (let (s1, to_mark) =
            foldl (\<lambda>acc rp. foldl (connection_forward_step x rp) acc
                               (equal_range (footpath_rp_forward d) rp))
              (s, []) (set_bits (marked_rp s))
      in foldl (mark_connection_forward d) s1 to_mark)"

definition connection_backward_step ::
  "'b externals \<Rightarrow> idx_t \<Rightarrow> 'b RAPTOR \<times> idx_t list \<Rightarrow> idx_t \<times> RoutePointConnection
    \<Rightarrow> 'b RAPTOR \<times> idx_t list" where
  "connection_backward_step x rp acc idx_rpc =
     (case acc of (s, to_mark) \<Rightarrow>
        (let rpc = snd idx_rpc;
             dt = arrival (retour s ! count s ! rp) - length_rpc rpc
         in if type (retour s ! count s ! rp) = vj
               \<and> dt > arrival (best s ! departure_route_point_idx rpc)
            then
              (let ty = (if connection_kind rpc = ConnectionKind_extension
                         then connection_extension else connection_guarantee);
                   s1 = s\<lparr>retour := (retour s)[count s :=
                          (retour s ! count s)[departure_route_point_idx rpc :=
                             type_retour_typed x dt dt rp ty]]\<rparr>;
                   s2 = s1\<lparr>best := (best s1)[departure_route_point_idx rpc :=
                          retour s1 ! count s1 ! departure_route_point_idx rpc]\<rparr>
               in (s2, to_mark @ [departure_route_point_idx rpc]))
            else (s, to_mark)))"

definition mark_connection_backward :: "Data \<Rightarrow> 'b RAPTOR \<Rightarrow> idx_t \<Rightarrow> 'b RAPTOR" where
  "mark_connection_backward d s rp =
     (let s1 = s\<lparr>marked_rp := (marked_rp s)[rp := True]\<rparr>;
          route_point = route_points d ! rp
      in if Q s1 ! route_idx route_point < int (order route_point)
         then s1\<lparr>Q := (Q s1)[route_idx route_point := int (order route_point)]\<rparr>
         else s1)"

definition route_path_connections_backward :: "'b externals \<Rightarrow> Data \<Rightarrow> 'b RAPTOR \<Rightarrow> 'b RAPTOR" where
  "route_path_connections_backward x d s =
     (let (s1, to_mark) =
            foldl (\<lambda>acc rp. foldl (connection_backward_step x rp) acc
                               (equal_range (footpath_rp_backward d) rp))
              (s, []) (set_bits (marked_rp s))
      in foldl (mark_connection_backward d) s1 to_mark)"

section \<open>The round loop\<close>

text \<open>
  The two visitors of \<^verbatim>\<open>raptor_loop\<close>. The boarding route point \<^verbatim>\<open>embarquement\<close> is an
  \<^verbatim>\<open>int\<close> in the loop and an index in the label; its initial value is kept as the index
  it stands for.
\<close>

datatype raptor_v = raptor_visitor | raptor_reverse_visitor

fun embarquement_init :: "'b externals \<Rightarrow> raptor_v \<Rightarrow> idx_t" where
  "embarquement_init x raptor_visitor = invalid_idx x"
| "embarquement_init x raptor_reverse_visitor = nat int_max"

fun working_datetime_init :: "'b externals \<Rightarrow> raptor_v \<Rightarrow> DateTime" where
  "working_datetime_init x raptor_visitor = DateTime_inf x"
| "working_datetime_init x raptor_reverse_visitor = DateTime_min x"

fun better :: "raptor_v \<Rightarrow> DateTime \<Rightarrow> DateTime \<Rightarrow> bool" where
  "better raptor_visitor a b = (a < b)"
| "better raptor_reverse_visitor a b = (a > b)"

fun better_retour :: "raptor_v \<Rightarrow> type_retour \<Rightarrow> type_retour \<Rightarrow> bool" where
  "better_retour raptor_visitor a b = (arrival a < arrival b)"
| "better_retour raptor_reverse_visitor a b = (departure a > departure b)"

fun previous_datetime :: "raptor_v \<Rightarrow> type_retour \<Rightarrow> DateTime" where
  "previous_datetime raptor_visitor tau = arrival tau"
| "previous_datetime raptor_reverse_visitor tau = departure tau"

fun current_datetime :: "'b externals \<Rightarrow> raptor_v \<Rightarrow> nat \<Rightarrow> StopTime \<Rightarrow> DateTime" where
  "current_datetime x raptor_visitor dat stop_time = DateTime_make x dat (departure_time stop_time)"
| "current_datetime x raptor_reverse_visitor dat stop_time =
     DateTime_make x dat (arrival_time stop_time)"

fun better_or_equal ::
  "'b externals \<Rightarrow> raptor_v \<Rightarrow> type_retour \<Rightarrow> DateTime \<Rightarrow> StopTime \<Rightarrow> bool" where
  "better_or_equal x raptor_visitor a current_dt st =
     (previous_datetime raptor_visitor a
        \<le> current_datetime x raptor_visitor (DateTime_date x current_dt) st)"
| "better_or_equal x raptor_reverse_visitor a current_dt st =
     (previous_datetime raptor_reverse_visitor a
        \<ge> current_datetime x raptor_reverse_visitor (DateTime_date x current_dt) st)"

fun walking_of :: "raptor_v \<Rightarrow> 'b externals \<Rightarrow> Data \<Rightarrow> 'b RAPTOR \<Rightarrow> 'b RAPTOR" where
  "walking_of raptor_visitor x d s = marcheapied x d s"
| "walking_of raptor_reverse_visitor x d s = marcheapiedreverse x d s"

fun route_path_connections :: "raptor_v \<Rightarrow> 'b externals \<Rightarrow> Data \<Rightarrow> 'b RAPTOR \<Rightarrow> 'b RAPTOR" where
  "route_path_connections raptor_visitor x d s = route_path_connections_forward x d s"
| "route_path_connections raptor_reverse_visitor x d s = route_path_connections_backward x d s"

definition make_queue :: "'b RAPTOR \<Rightarrow> 'b RAPTOR" where
  "make_queue s =
     s\<lparr>marked_rp := replicate (length (marked_rp s)) False,
       marked_sp := replicate (length (marked_sp s)) False\<rparr>"

fun best_trip :: "'b externals \<Rightarrow> raptor_v \<Rightarrow> Data \<Rightarrow> Route \<Rightarrow> nat \<Rightarrow> DateTime \<Rightarrow> int" where
  "best_trip x raptor_visitor d route ord date_time = earliest_trip x route ord date_time d"
| "best_trip x raptor_reverse_visitor d route ord date_time = tardiest_trip x route ord date_time d"

fun one_more_step :: "raptor_v \<Rightarrow> Data \<Rightarrow> 'b RAPTOR \<Rightarrow> 'b RAPTOR" where
  "one_more_step raptor_visitor d s = s\<lparr>retour := retour s @ [retour_constant d]\<rparr>"
| "one_more_step raptor_reverse_visitor d s = s\<lparr>retour := retour s @ [retour_constant_reverse d]\<rparr>"

fun store_better ::
  "raptor_v \<Rightarrow> 'b externals \<Rightarrow> Data \<Rightarrow> idx_t \<Rightarrow> DateTime \<Rightarrow> type_retour \<Rightarrow> StopTime \<Rightarrow> idx_t
    \<Rightarrow> 'b RAPTOR \<Rightarrow> bool \<times> DateTime \<times> 'b RAPTOR" where
  "store_better raptor_visitor x d rpid wdt bound st emb s =
     raptor_visitor_store_better x d rpid wdt bound st emb s"
| "store_better raptor_reverse_visitor x d rpid wdt bound st emb s =
     raptor_reverse_visitor_store_better x d rpid wdt bound st emb s"

text \<open>
  The route points scanned from position \<open>ord\<close> of a route: a slice of the array of all
  route points, walked upwards by the forward visitor and downwards by the reverse one.
\<close>

fun visitor_route_points :: "raptor_v \<Rightarrow> Data \<Rightarrow> Route \<Rightarrow> nat \<Rightarrow> RoutePoint list" where
  "visitor_route_points raptor_visitor d route ord =
     drop (route_point_list route ! ord) (take (last (route_point_list route) + 1) (route_points d))"
| "visitor_route_points raptor_reverse_visitor d route ord =
     rev (drop (route_point_list route ! ord - ord)
            (take (route_point_list route ! ord + 1) (route_points d)))"

text \<open>
  The stop-time cursor \<^verbatim>\<open>it_st\<close> is the position it points to; \<^verbatim>\<open>++it_st\<close> moves a
  forward iterator up and a reverse iterator down.
\<close>

definition first_stoptime :: "raptor_v \<Rightarrow> nat \<Rightarrow> nat" where
  "first_stoptime v position = position"

fun it_st_next :: "raptor_v \<Rightarrow> nat \<Rightarrow> nat" where
  "it_st_next raptor_visitor it = it + 1"
| "it_st_next raptor_reverse_visitor it = it - 1"

fun visitor_update :: "'b externals \<Rightarrow> raptor_v \<Rightarrow> DateTime \<Rightarrow> StopTime \<Rightarrow> DateTime" where
  "visitor_update x raptor_visitor dt st = DateTime_update x dt (arrival_time st)"
| "visitor_update x raptor_reverse_visitor dt st = DateTime_updatereverse x dt (departure_time st)"

fun reset_queue_item :: "raptor_v \<Rightarrow> int" where
  "reset_queue_item raptor_visitor = int_max"
| "reset_queue_item raptor_reverse_visitor = - 1"

text \<open>
  The local variables of \<^verbatim>\<open>raptor_loop\<close>: \<^verbatim>\<open>t\<close>, \<^verbatim>\<open>embarquement\<close>, \<^verbatim>\<open>workingDt\<close>,
  \<^verbatim>\<open>l_zone\<close>, \<^verbatim>\<open>it_st\<close> and \<^verbatim>\<open>end\<close>. They are declared before the \<^verbatim>\<open>while\<close>, so they
  live across routes and rounds (\<^verbatim>\<open>it_st\<close> is declared anew for each route and read
  only after a boarding has set it).
\<close>

record scan =
  sc_t :: int
  sc_embarquement :: idx_t
  sc_workingDt :: DateTime
  sc_l_zone :: nat
  sc_it_st :: nat
  sc_end :: bool

text \<open>The body of the loop over the route points of one route (lines 663 to 688).\<close>

definition scan_route_point ::
  "raptor_v \<Rightarrow> 'b externals \<Rightarrow> Data \<Rightarrow> bool \<Rightarrow> Route \<Rightarrow> scan \<times> 'b RAPTOR \<Rightarrow> RoutePoint
    \<Rightarrow> scan \<times> 'b RAPTOR" where
  "scan_route_point v x d global_pruning route acc rp =
     (case acc of (sc, s) \<Rightarrow>
        (let (sc1, s1) =
               (if sc_t sc \<ge> 0 then
                  (let sc' = sc\<lparr>sc_it_st := it_st_next v (sc_it_st sc)\<rparr>;
                       st = stop_times d ! sc_it_st sc'
                   in if sc_l_zone sc' = uint32_max \<or> sc_l_zone sc' \<noteq> local_traffic_zone st then
                        (let bound =
                               (if better_retour v (best s ! rp_idx rp) (best_now (b_dest s))
                                   \<or> \<not> global_pruning
                                then best s ! rp_idx rp else best_now (b_dest s));
                             (r, wdt, s') =
                               store_better v x d (rp_idx rp) (sc_workingDt sc') bound st
                                 (sc_embarquement sc') s
                         in (sc'\<lparr>sc_workingDt := wdt, sc_end := (r \<and> sc_end sc')\<rparr>, s'))
                      else (sc', s))
                else (sc, s));
             retour_temp = retour s1 ! (count s1 - 1) ! rp_idx rp
         in if type retour_temp \<noteq> uninitialized
               \<and> (sc_t sc1 = - 1
                    \<or> better_or_equal x v retour_temp (sc_workingDt sc1)
                         (stop_times d ! sc_it_st sc1))
            then
              (let etemp = best_trip x v d route (order rp) (previous_datetime v retour_temp)
               in if etemp \<ge> 0 \<and> sc_t sc1 \<noteq> etemp then
                    (let it = first_stoptime v
                                (stop_time_list (vehicle_journeys d ! nat etemp) ! order rp);
                         st = stop_times d ! it
                     in (sc1\<lparr>sc_t := etemp, sc_embarquement := rp_idx rp,
                             sc_workingDt := visitor_update x v (previous_datetime v retour_temp) st,
                             sc_l_zone := local_traffic_zone st, sc_it_st := it\<rparr>, s1))
                  else (sc1, s1))
            else (sc1, s1)))"

text \<open>The boarding state at the start of the scan of a marked route (lines 658 to 660).\<close>

definition init_route_scan :: "raptor_v \<Rightarrow> 'b externals \<Rightarrow> scan \<Rightarrow> scan" where
  "init_route_scan v x sc =
     sc\<lparr>sc_t := - 1, sc_embarquement := embarquement_init x v,
        sc_workingDt := working_datetime_init x v\<rparr>"

text \<open>One route of the round (lines 656 to 692).\<close>

definition scan_route ::
  "raptor_v \<Rightarrow> 'b externals \<Rightarrow> Data \<Rightarrow> bool \<Rightarrow> scan \<times> 'b RAPTOR \<Rightarrow> Route \<Rightarrow> scan \<times> 'b RAPTOR" where
  "scan_route v x d global_pruning acc route =
     (case acc of (sc, s) \<Rightarrow>
        (let (sc1, s1) =
               (if Q s ! r_idx route \<noteq> int_max \<and> Q s ! r_idx route \<noteq> - 1
                   \<and> routes_valides s ! r_idx route
                then foldl (scan_route_point v x d global_pruning route)
                       (init_route_scan v x sc, s)
                       (visitor_route_points v d route (nat (Q s ! r_idx route)))
                else (sc, s))
         in (sc1, s1\<lparr>Q := (Q s1)[r_idx route := reset_queue_item v]\<rparr>)))"

text \<open>One round: the body of the \<^verbatim>\<open>while\<close> (lines 650 to 694).\<close>

definition raptor_round ::
  "raptor_v \<Rightarrow> 'b externals \<Rightarrow> Data \<Rightarrow> bool \<Rightarrow> scan \<times> 'b RAPTOR \<Rightarrow> scan \<times> 'b RAPTOR" where
  "raptor_round v x d global_pruning acc =
     (case acc of (sc, s) \<Rightarrow>
        (let s1 = s\<lparr>count := count s + 1\<rparr>;
             sc1 = sc\<lparr>sc_end := True\<rparr>;
             s2 = (if count s1 = length (retour s1) then one_more_step v d s1 else s1);
             s3 = make_queue s2;
             (sc2, s4) = foldl (scan_route v x d global_pruning) (sc1, s3) (routes d);
             s5 = route_path_connections v x d s4
         in (sc2, walking_of v x d s5)))"

text \<open>
  The \<^verbatim>\<open>while(!end)\<close> loop, with fuel: \<open>None\<close> is the loop still running when the fuel
  is spent.
\<close>

fun raptor_rounds ::
  "nat \<Rightarrow> raptor_v \<Rightarrow> 'b externals \<Rightarrow> Data \<Rightarrow> bool \<Rightarrow> scan \<times> 'b RAPTOR
    \<Rightarrow> (scan \<times> 'b RAPTOR) option" where
  "raptor_rounds 0 v x d global_pruning acc = None"
| "raptor_rounds (Suc n) v x d global_pruning acc =
     (let acc' = raptor_round v x d global_pruning acc
      in if sc_end (fst acc') then Some acc' else raptor_rounds n v x d global_pruning acc')"

definition scan_init :: "raptor_v \<Rightarrow> 'b externals \<Rightarrow> scan" where
  "scan_init v x =
     \<lparr>sc_t = - 1, sc_embarquement = embarquement_init x v,
      sc_workingDt = working_datetime_init x v, sc_l_zone = uint32_max, sc_it_st = 0,
      sc_end = False\<rparr>"

definition raptor_loop ::
  "nat \<Rightarrow> raptor_v \<Rightarrow> 'b externals \<Rightarrow> Data \<Rightarrow> bool \<Rightarrow> 'b RAPTOR \<Rightarrow> 'b RAPTOR option" where
  "raptor_loop fuel v x d global_pruning s =
     map_option snd
       (raptor_rounds fuel v x d global_pruning
          (scan_init v x, walking_of v x d (s\<lparr>count := 0\<rparr>)))"

definition boucleRAPTOR :: "nat \<Rightarrow> 'b externals \<Rightarrow> Data \<Rightarrow> bool \<Rightarrow> 'b RAPTOR \<Rightarrow> 'b RAPTOR option" where
  "boucleRAPTOR fuel x d global_pruning s = raptor_loop fuel raptor_visitor x d global_pruning s"

definition boucleRAPTORreverse ::
  "nat \<Rightarrow> 'b externals \<Rightarrow> Data \<Rightarrow> bool \<Rightarrow> 'b RAPTOR \<Rightarrow> 'b RAPTOR option" where
  "boucleRAPTORreverse fuel x d global_pruning s =
     raptor_loop fuel raptor_reverse_visitor x d global_pruning s"

section \<open>The search driver\<close>

subsection \<open>\<^verbatim>\<open>set_routes_valides\<close>\<close>

definition forbidden_step :: "Line \<Rightarrow> Route \<Rightarrow> ModeType \<Rightarrow> bool \<Rightarrow> string \<times> string \<Rightarrow> bool" where
  "forbidden_step line route mode forbidden_route pair =
     (let f1 = (if fst pair = ''line'' \<and> snd pair = l_external_code line
                then True else forbidden_route);
          f2 = (if fst pair = ''route'' \<and> snd pair = r_external_code route then True else f1)
      in if fst pair = ''mode'' \<and> snd pair = m_external_code mode then True else f2)"

text \<open>The loop over the vehicle journeys of a route, left at the first one that circulates.\<close>

fun validate_route ::
  "'b externals \<Rightarrow> Data \<Rightarrow> nat \<Rightarrow> Route \<Rightarrow> idx_t list \<Rightarrow> bool list \<Rightarrow> bool list" where
  "validate_route x d dat route [] rv = rv"
| "validate_route x d dat route (vjidx # vjs) rv =
     (if check2 x (validity_patterns d ! validity_pattern_idx (vehicle_journeys d ! vjidx)) dat
      then rv[r_idx route := True]
      else validate_route x d dat route vjs rv)"

definition set_routes_valides_route ::
  "'b externals \<Rightarrow> Data \<Rightarrow> nat \<Rightarrow> (string \<times> string) list \<Rightarrow> bool list \<Rightarrow> Route \<Rightarrow> bool list" where
  "set_routes_valides_route x d dat forbidden rv route =
     (let line = lines d ! line_idx route;
          mode = mode_types d ! mode_type_idx route;
          forbidden_route = foldl (forbidden_step line route mode) False forbidden
      in if \<not> forbidden_route
         then validate_route x d dat route (vehicle_journey_list route) rv
         else rv)"

definition set_routes_valides ::
  "'b externals \<Rightarrow> Data \<Rightarrow> nat \<Rightarrow> (string \<times> string) list \<Rightarrow> 'b RAPTOR \<Rightarrow> 'b RAPTOR" where
  "set_routes_valides x d dat forbidden s =
     s\<lparr>routes_valides :=
         foldl (set_routes_valides_route x d dat forbidden)
           (replicate (length (routes d)) False) (routes d)\<rparr>"

subsection \<open>\<^verbatim>\<open>clear_and_init\<close>\<close>

definition init_depart :: "'b externals \<Rightarrow> Data \<Rightarrow> bool \<Rightarrow> 'b RAPTOR \<Rightarrow> Departure_Type \<Rightarrow> 'b RAPTOR" where
  "init_depart x d clockw s item =
     (let s1 = s\<lparr>retour := (retour s)[0 :=
                  (retour s ! 0)[dep_rpidx item :=
                     type_retour_depart x (dep_arrival item) (dep_arrival item)]]\<rparr>;
          s2 = s1\<lparr>best := (best s1)[dep_rpidx item := retour s1 ! 0 ! dep_rpidx item]\<rparr>;
          route_point = route_points d ! dep_rpidx item;
          s3 = (if clockw \<and> Q s2 ! route_idx route_point > int (order route_point)
                then s2\<lparr>Q := (Q s2)[route_idx route_point := int (order route_point)]\<rparr>
                else if \<not> clockw \<and> Q s2 ! route_idx route_point < int (order route_point)
                then s2\<lparr>Q := (Q s2)[route_idx route_point := int (order route_point)]\<rparr>
                else s2)
      in if dep_arrival item \<noteq> DateTime_min x \<and> dep_arrival item \<noteq> DateTime_inf x
         then s3\<lparr>marked_sp :=
                  (marked_sp s3)[stop_point_idx (route_points d ! dep_rpidx item) := True]\<rparr>
         else s3)"

definition init_destination_rp ::
  "'b externals \<Rightarrow> Data \<Rightarrow> DateTime \<Rightarrow> bool \<Rightarrow> real \<Rightarrow> 'b RAPTOR \<Rightarrow> idx_t \<Rightarrow> 'b RAPTOR" where
  "init_destination_rp x d borne clockw meters s rpidx =
     (if routes_valides s ! route_idx (route_points d ! rpidx)
         \<and> ((clockw \<and> (borne = DateTime_inf x \<or> arrival (best s ! rpidx) > borne))
              \<or> (\<not> clockw \<and> (borne = DateTime_min x \<or> departure (best s ! rpidx) < borne)))
      then
        (let s1 = s\<lparr>b_dest := ajouter_destination x (b_dest s) rpidx (meters / 1.38)\<rparr>
         in if clockw
            then s1\<lparr>best := (best s1)[rpidx := (best s1 ! rpidx)\<lparr>arrival := borne\<rparr>]\<rparr>
            else s1\<lparr>best := (best s1)[rpidx := (best s1 ! rpidx)\<lparr>departure := borne\<rparr>]\<rparr>)
      else s)"

definition clear_and_init ::
  "'b externals \<Rightarrow> Data \<Rightarrow> Departure_Type list \<Rightarrow> (idx_t \<times> real) list \<Rightarrow> DateTime \<Rightarrow> bool \<Rightarrow> bool
    \<Rightarrow> 'b RAPTOR \<Rightarrow> 'b RAPTOR" where
  "clear_and_init x d departs destinations borne clockw clear s =
     (let s1 = s\<lparr>Q := replicate (length (routes d)) (if clockw then int_max else - 1)\<rparr>;
          (s2, borne') =
            (if clear then
               (if clockw then
                  (s1\<lparr>retour := [retour_constant d], best := retour_constant d,
                      b_dest := reinit x (b_dest s1) (length (route_points d)) borne clockw\<rparr>,
                   borne)
                else
                  (let b = (if borne = DateTime_inf x then DateTime_min x else borne)
                   in (s1\<lparr>retour := [retour_constant_reverse d],
                          best := retour_constant_reverse d,
                          b_dest := reinit x (b_dest s1) (length (route_points d)) b clockw\<rparr>,
                       b)))
             else (s1, borne));
          s3 = foldl (init_depart x d clockw) s2 departs;
          s4 = foldl (\<lambda>s' item.
                        foldl (init_destination_rp x d borne' clockw (snd item)) s'
                          (sp_route_point_list (stop_points d ! fst item)))
                 s3 destinations
      in s4\<lparr>count := 1\<rparr>)"

section \<open>The path reconstructor\<close>

datatype error = out_of_range

datatype ItemType = public_transport | walking | extension | guarantee

record PathItem =
  item_type :: ItemType
  item_stop_points :: "idx_t list"
  arrivals :: "DateTime list"
  departures :: "DateTime list"
  vj_idx :: idx_t
  item_arrival :: DateTime
  item_departure :: DateTime

record Path =
  items :: "PathItem list"
  duration :: int
  nb_changes :: nat
  percent_visited :: nat

text \<open>\<^verbatim>\<open>std::vector::at\<close>: the element, or the exception \<^verbatim>\<open>std::out_of_range\<close>.\<close>

definition vector_at :: "'a list \<Rightarrow> nat \<Rightarrow> error + 'a" where
  "vector_at xs i = (if i < length xs then Inr (xs ! i) else Inl out_of_range)"

text \<open>
  Modelled from the spec: the constructors of \<^verbatim>\<open>PathItem\<close> are declared in a header that
  is not among the sources. The empty item has no stop and no time; the item of two
  datetimes has them as its departure and its arrival.
\<close>

definition PathItem_empty :: "'b externals \<Rightarrow> PathItem" where
  "PathItem_empty x =
     \<lparr>item_type = public_transport, item_stop_points = [], arrivals = [], departures = [],
      vj_idx = invalid_idx x, item_arrival = DateTime_inf x, item_departure = DateTime_inf x\<rparr>"

definition PathItem_of :: "'b externals \<Rightarrow> DateTime \<Rightarrow> DateTime \<Rightarrow> PathItem" where
  "PathItem_of x dp a = (PathItem_empty x)\<lparr>item_departure := dp, item_arrival := a\<rparr>"

text \<open>The times of one stop of a public transport item (lines 827 to 837).\<close>

definition push_times ::
  "'b externals \<Rightarrow> bool \<Rightarrow> StopTime \<Rightarrow> DateTime \<times> PathItem \<Rightarrow> DateTime \<times> PathItem" where
  "push_times x reverse current_st acc =
     (case acc of (workingDate, item) \<Rightarrow>
        if \<not> reverse then
          (let wd1 = DateTime_updatereverse x workingDate (departure_time current_st);
               wd2 = DateTime_updatereverse x wd1 (arrival_time current_st)
           in (wd2, item\<lparr>departures := departures item @ [wd1], arrivals := arrivals item @ [wd2]\<rparr>))
        else
          (let wd1 = DateTime_update x workingDate (arrival_time current_st);
               wd2 = DateTime_update x wd1 (departure_time current_st)
           in (wd2, item\<lparr>arrivals := arrivals item @ [wd1], departures := departures item @ [wd2]\<rparr>)))"

text \<open>
  The inner loop \<^verbatim>\<open>while(rpid_embarquement != current_rpid)\<close>, with fuel; the stop-time
  before position \<open>0\<close> does not exist (the index wraps in the source and \<^verbatim>\<open>at\<close> throws).
\<close>

fun walk_trip ::
  "nat \<Rightarrow> 'b externals \<Rightarrow> Data \<Rightarrow> bool \<Rightarrow> idx_t \<Rightarrow> idx_t \<Rightarrow> StopTime \<Rightarrow> DateTime \<times> PathItem
    \<Rightarrow> (error + idx_t \<times> StopTime \<times> DateTime \<times> PathItem) option" where
  "walk_trip 0 x d reverse emb current_rpid current_st acc = None"
| "walk_trip (Suc n) x d reverse emb current_rpid current_st acc =
     (if emb \<noteq> current_rpid then
        (let acc1 = (fst acc, (snd acc)\<lparr>item_stop_points := item_stop_points (snd acc)
                       @ [stop_point_idx (route_points d ! current_rpid)]\<rparr>);
             acc2 = push_times x reverse current_st acc1
         in case (if reverse then vector_at (stop_times d) (st_idx current_st + 1)
                  else if st_idx current_st = 0 then Inl out_of_range
                  else vector_at (stop_times d) (st_idx current_st - 1)) of
              Inl e \<Rightarrow> Some (Inl e)
            | Inr st' \<Rightarrow> walk_trip n x d reverse emb (route_point_idx st') st' acc2)
      else Some (Inr (current_rpid, current_st, acc)))"

text \<open>
  The state of the outer loop of \<^verbatim>\<open>makePath\<close>. The locals \<^verbatim>\<open>r\<close>, \<^verbatim>\<open>item\<close>,
  \<^verbatim>\<open>current_st\<close> and \<^verbatim>\<open>workingDate\<close> are written before they are read in every
  iteration that reads them, so they are not carried from one iteration to the next.
\<close>

record mp_state =
  mp_current_rpid :: idx_t
  mp_countb :: nat
  mp_rpid_embarquement :: idx_t
  mp_items :: "PathItem list"

definition makePath_connection :: "'b externals \<Rightarrow> Data \<Rightarrow> 'b RAPTOR \<Rightarrow> bool \<Rightarrow> mp_state \<Rightarrow> mp_state" where
  "makePath_connection x d s reverse m =
     (let r = retour s ! mp_countb m ! mp_current_rpid m;
          r2 = retour s ! mp_countb m ! rpid_embarquement r;
          item0 = (if reverse then PathItem_of x (departure r) (arrival r2)
                   else PathItem_of x (arrival r2) (departure r));
          item1 = item0\<lparr>item_stop_points := item_stop_points item0
                    @ [stop_point_idx (route_points d ! mp_current_rpid m),
                       stop_point_idx (route_points d ! rpid_embarquement r)]\<rparr>;
          item2 = (if type r = connection then item1\<lparr>item_type := walking\<rparr>
                   else if type r = connection_extension then item1\<lparr>item_type := extension\<rparr>
                   else if type r = connection_guarantee then item1\<lparr>item_type := guarantee\<rparr>
                   else item1)
      in m\<lparr>mp_items := mp_items m @ [item2], mp_rpid_embarquement := invalid_idx x,
           mp_current_rpid := rpid_embarquement r\<rparr>)"

definition makePath_trip ::
  "nat \<Rightarrow> 'b externals \<Rightarrow> Data \<Rightarrow> 'b RAPTOR \<Rightarrow> bool \<Rightarrow> mp_state \<Rightarrow> (error + mp_state) option" where
  "makePath_trip n x d s reverse m =
     (let r = retour s ! mp_countb m ! mp_current_rpid m
      in case vector_at (stop_times d) (stop_time_idx r) of
           Inl e \<Rightarrow> Some (Inl e)
         | Inr current_st \<Rightarrow>
             (let item = (PathItem_empty x)\<lparr>item_type := public_transport,
                            vj_idx := vehicle_journey_idx current_st\<rparr>;
                  workingDate = (if \<not> reverse then departure r else arrival r)
              in case walk_trip n x d reverse (rpid_embarquement r) (mp_current_rpid m)
                        current_st (workingDate, item) of
                   None \<Rightarrow> None
                 | Some (Inl e) \<Rightarrow> Some (Inl e)
                 | Some (Inr (current_rpid, st, acc)) \<Rightarrow>
                     (let acc1 = (fst acc, (snd acc)\<lparr>item_stop_points := item_stop_points (snd acc)
                                    @ [stop_point_idx (route_points d ! current_rpid)]\<rparr>);
                          item1 = snd (push_times x reverse st acc1);
                          item2 = (if \<not> reverse
                                   then item1\<lparr>item_arrival := hd (arrivals item1),
                                           item_departure := last (departures item1)\<rparr>
                                   else item1\<lparr>item_arrival := last (arrivals item1),
                                           item_departure := hd (departures item1)\<rparr>)
                      in Some (Inr (m\<lparr>mp_items := mp_items m @ [item2],
                                       mp_countb := mp_countb m - 1,
                                       mp_rpid_embarquement := invalid_idx x,
                                       mp_current_rpid := current_rpid\<rparr>)))))"

text \<open>One iteration of \<^verbatim>\<open>while(!stop)\<close>, up to the test of the departure (lines 783 to 873).\<close>

definition makePath_step ::
  "nat \<Rightarrow> 'b externals \<Rightarrow> Data \<Rightarrow> 'b RAPTOR \<Rightarrow> bool \<Rightarrow> mp_state \<Rightarrow> (error + mp_state) option" where
  "makePath_step n x d s reverse m =
     (let ty = type (retour s ! mp_countb m ! mp_current_rpid m)
      in if ty = connection \<or> ty = connection_extension \<or> ty = connection_guarantee
         then Some (Inr (makePath_connection x d s reverse m))
         else if mp_rpid_embarquement m = invalid_idx x
         then makePath_trip n x d s reverse m
         else Some (Inr m))"

fun makePath_loop ::
  "nat \<Rightarrow> 'b externals \<Rightarrow> Data \<Rightarrow> 'b RAPTOR \<Rightarrow> bool \<Rightarrow> mp_state \<Rightarrow> (error + PathItem list) option" where
  "makePath_loop 0 x d s reverse m = None"
| "makePath_loop (Suc n) x d s reverse m =
     (case makePath_step n x d s reverse m of
        None \<Rightarrow> None
      | Some (Inl e) \<Rightarrow> Some (Inl e)
      | Some (Inr m') \<Rightarrow>
          if type (retour s ! mp_countb m' ! mp_current_rpid m') = depart
          then Some (Inr (mp_items m'))
          else makePath_loop n x d s reverse m')"

definition reverse_item :: "PathItem \<Rightarrow> PathItem" where
  "reverse_item item =
     item\<lparr>item_stop_points := rev (item_stop_points item), arrivals := rev (arrivals item),
          departures := rev (departures item)\<rparr>"

text \<open>
  The end of \<^verbatim>\<open>makePath\<close> (lines 879 to 908): the order of the items and the metadata.
  The division is the unsigned one of the source; with no stop point at all the source
  divides by zero.
\<close>

definition finish_path :: "Data \<Rightarrow> 'b RAPTOR \<Rightarrow> bool \<Rightarrow> PathItem list \<Rightarrow> Path" where
  "finish_path d s reverse its =
     (let its1 = (if \<not> reverse then map reverse_item (rev its) else its);
          dur = (if length its1 > 0
                 then int (item_arrival (last its1)) - int (item_departure (hd its1)) else 0);
          count_visites = length (filter (\<lambda>l. type l \<noteq> uninitialized) (best s));
          nb = (if length its1 > 2
                then length (filter (\<lambda>i. item_type (its1 ! i) = walking) [1..<length its1 - 1])
                else 0)
      in \<lparr>items = its1, duration = dur, nb_changes = nb,
          percent_visited = 100 * count_visites div length (stop_points d)\<rparr>)"

definition makePath ::
  "nat \<Rightarrow> 'b externals \<Rightarrow> Data \<Rightarrow> 'b RAPTOR \<Rightarrow> idx_t \<Rightarrow> nat \<Rightarrow> bool \<Rightarrow> (error + Path) option" where
  "makePath fuel x d s destination_idx countb reverse =
     (case makePath_loop fuel x d s reverse
             \<lparr>mp_current_rpid = destination_idx, mp_countb = countb,
              mp_rpid_embarquement = invalid_idx x, mp_items = []\<rparr> of
        None \<Rightarrow> None
      | Some (Inl e) \<Rightarrow> Some (Inl e)
      | Some (Inr its) \<Rightarrow> Some (Inr (finish_path d s reverse its)))"

definition makePathreverse ::
  "nat \<Rightarrow> 'b externals \<Rightarrow> Data \<Rightarrow> 'b RAPTOR \<Rightarrow> idx_t \<Rightarrow> nat \<Rightarrow> (error + Path) option" where
  "makePathreverse fuel x d s destination_idx countb =
     makePath fuel x d s destination_idx countb True"

subsection \<open>The choice of the destinations: \<^verbatim>\<open>makePathes\<close> and \<^verbatim>\<open>makePathesreverse\<close>\<close>

text \<open>
  The two functions push \<^verbatim>\<open>makePath(rpid, i)\<close> and \<^verbatim>\<open>makePathreverse(best_rp, i)\<close>; the
  reconstruction is the parameter \<open>mk\<close> here. Distances are the \<^verbatim>\<open>double\<close>s of the
  source taken as reals.
\<close>

definition makePathes_rp ::
  "'b externals \<Rightarrow> 'b RAPTOR \<Rightarrow> nat \<Rightarrow> real \<Rightarrow> DateTime \<times> idx_t \<Rightarrow> idx_t \<Rightarrow> DateTime \<times> idx_t" where
  "makePathes_rp x s i meters acc dest =
     (case acc of (dt, rpid) \<Rightarrow>
        if type (retour s ! i ! dest) \<noteq> uninitialized
           \<and> DateTime_plus_double x (arrival (retour s ! i ! dest)) (meters / 1.38) \<le> dt
        then (DateTime_plus_double x (arrival (best s ! dest)) meters, dest)
        else (dt, rpid))"

definition makePathes_round ::
  "(idx_t \<Rightarrow> nat \<Rightarrow> 'p) \<Rightarrow> 'b externals \<Rightarrow> Data \<Rightarrow> 'b RAPTOR \<Rightarrow> (idx_t \<times> real) list
    \<Rightarrow> DateTime \<times> 'p list \<Rightarrow> nat \<Rightarrow> DateTime \<times> 'p list" where
  "makePathes_round mk x d s destinations acc i =
     (case acc of (dt, result) \<Rightarrow>
        (let (dt', rpid) =
               foldl (\<lambda>a spid_dist.
                        foldl (makePathes_rp x s i (snd spid_dist)) a
                          (sp_route_point_list (stop_points d ! fst spid_dist)))
                 (dt, nat int_max) destinations
         in (dt', if rpid \<noteq> nat int_max then result @ [mk rpid i] else result)))"

definition makePathes ::
  "(idx_t \<Rightarrow> nat \<Rightarrow> 'p) \<Rightarrow> 'b externals \<Rightarrow> Data \<Rightarrow> 'b RAPTOR \<Rightarrow> (idx_t \<times> real) list \<Rightarrow> DateTime
    \<Rightarrow> 'p list" where
  "makePathes mk x d s destinations dt =
     snd (foldl (makePathes_round mk x d s destinations) (dt, []) [1..<count s + 1])"

definition makePathesreverse_rp ::
  "'b externals \<Rightarrow> 'b RAPTOR \<Rightarrow> nat \<Rightarrow> real \<Rightarrow> DateTime \<times> idx_t \<Rightarrow> idx_t \<Rightarrow> DateTime \<times> idx_t" where
  "makePathesreverse_rp x s i meters acc dest =
     (case acc of (best_dt, best_rp) \<Rightarrow>
        if type (retour s ! i ! dest) \<noteq> uninitialized then
          (let current_dt = DateTime_minus_double x (departure (retour s ! i ! dest)) (meters / 1.38)
           in if current_dt \<ge> best_dt then (current_dt, dest) else (best_dt, best_rp))
        else (best_dt, best_rp))"

definition makePathesreverse_round ::
  "(idx_t \<Rightarrow> nat \<Rightarrow> 'p) \<Rightarrow> 'b externals \<Rightarrow> Data \<Rightarrow> 'b RAPTOR \<Rightarrow> (idx_t \<times> real) list
    \<Rightarrow> DateTime \<times> 'p list \<Rightarrow> nat \<Rightarrow> DateTime \<times> 'p list" where
  "makePathesreverse_round mk x d s destinations acc i =
     (case acc of (best_dt, result) \<Rightarrow>
        (let (best_dt', best_rp) =
               foldl (\<lambda>a spid_dist.
                        foldl (makePathesreverse_rp x s i (snd spid_dist)) a
                          (sp_route_point_list (stop_points d ! fst spid_dist)))
                 (best_dt, invalid_idx x) destinations
         in (best_dt', if best_rp \<noteq> invalid_idx x then result @ [mk best_rp i] else result)))"

definition makePathesreverse ::
  "(idx_t \<Rightarrow> nat \<Rightarrow> 'p) \<Rightarrow> 'b externals \<Rightarrow> Data \<Rightarrow> 'b RAPTOR \<Rightarrow> (idx_t \<times> real) list \<Rightarrow> DateTime
    \<Rightarrow> 'p list" where
  "makePathesreverse mk x d s destinations dt =
     snd (foldl (makePathesreverse_round mk x d s destinations) (dt, []) [1..<count s + 1])"

subsection \<open>\<^verbatim>\<open>compute_all\<close> and \<^verbatim>\<open>compute_reverse_all\<close> for one datetime\<close>

text \<open>
  The reconstructions of one pass, in their order: the first that throws or does not
  return decides.
\<close>

fun collect :: "(error + 'a) option list \<Rightarrow> (error + 'a list) option" where
  "collect [] = Some (Inr [])"
| "collect (r # rs) =
     (case r of
        None \<Rightarrow> None
      | Some (Inl e) \<Rightarrow> Some (Inl e)
      | Some (Inr p) \<Rightarrow>
          (case collect rs of
             None \<Rightarrow> None
           | Some (Inl e) \<Rightarrow> Some (Inl e)
           | Some (Inr ps) \<Rightarrow> Some (Inr (p # ps))))"

text \<open>The loop over the departures of the second phase of \<^verbatim>\<open>compute_all\<close>.\<close>

fun compute_all_passes ::
  "nat \<Rightarrow> 'b externals \<Rightarrow> Data \<Rightarrow> (idx_t \<times> real) list \<Rightarrow> DateTime \<Rightarrow> Departure_Type list
    \<Rightarrow> 'b RAPTOR \<Rightarrow> (error + Path list \<times> 'b RAPTOR) option" where
  "compute_all_passes fuel x d departs dt_depart [] s = Some (Inr ([], s))"
| "compute_all_passes fuel x d departs dt_depart (dep # rest) s =
     (case boucleRAPTORreverse fuel x d True
             (clear_and_init x d [dep] departs (dep_departure dep) False True s) of
        None \<Rightarrow> None
      | Some s1 \<Rightarrow>
          (case (if type (best_now (b_dest s1)) \<noteq> uninitialized
                 then collect (makePathesreverse (makePathreverse fuel x d s1) x d s1 departs dt_depart)
                 else Some (Inr [])) of
             None \<Rightarrow> None
           | Some (Inl e) \<Rightarrow> Some (Inl e)
           | Some (Inr temp) \<Rightarrow>
               (case compute_all_passes fuel x d departs dt_depart rest s1 of
                  None \<Rightarrow> None
                | Some (Inl e) \<Rightarrow> Some (Inl e)
                | Some (Inr (others, s2)) \<Rightarrow> Some (Inr (temp @ others, s2)))))"

text \<open>The first pass of \<^verbatim>\<open>compute_all\<close> (lines 256 to 260).\<close>

definition compute_all_first_pass ::
  "nat \<Rightarrow> 'b externals \<Rightarrow> Data \<Rightarrow> (idx_t \<times> real) list \<Rightarrow> (idx_t \<times> real) list \<Rightarrow> DateTime \<Rightarrow> DateTime
    \<Rightarrow> (string \<times> string) list \<Rightarrow> 'b RAPTOR \<Rightarrow> 'b RAPTOR option" where
  "compute_all_first_pass fuel x d departs destinations dt_depart borne forbidden s =
     (let departures = getDepartures x departs dt_depart True d;
          s1 = set_routes_valides x d (DateTime_date x dt_depart) forbidden s;
          s2 = clear_and_init x d departures destinations borne True True s1
      in boucleRAPTOR fuel x d False s2)"

definition compute_all ::
  "nat \<Rightarrow> 'b externals \<Rightarrow> Data \<Rightarrow> (idx_t \<times> real) list \<Rightarrow> (idx_t \<times> real) list \<Rightarrow> DateTime \<Rightarrow> DateTime
    \<Rightarrow> (string \<times> string) list \<Rightarrow> 'b RAPTOR \<Rightarrow> (error + Path list \<times> 'b RAPTOR) option" where
  "compute_all fuel x d departs destinations dt_depart borne forbidden s =
     (case compute_all_first_pass fuel x d departs destinations dt_depart borne forbidden s of
        None \<Rightarrow> None
      | Some s3 \<Rightarrow>
          if type (best_now (b_dest s3)) = uninitialized then Some (Inr ([], s3))
          else compute_all_passes fuel x d departs dt_depart
                 (getDepartures_retour x departs destinations False (retour s3) d) s3)"

text \<open>The loop over the departures of the second phase of \<^verbatim>\<open>compute_reverse_all\<close>.\<close>

fun compute_reverse_all_passes ::
  "nat \<Rightarrow> 'b externals \<Rightarrow> Data \<Rightarrow> (idx_t \<times> real) list \<Rightarrow> DateTime \<Rightarrow> Departure_Type list
    \<Rightarrow> 'b RAPTOR \<Rightarrow> (error + Path list \<times> 'b RAPTOR) option" where
  "compute_reverse_all_passes fuel x d destinations dt_depart [] s = Some (Inr ([], s))"
| "compute_reverse_all_passes fuel x d destinations dt_depart (dep # rest) s =
     (case boucleRAPTOR fuel x d (global_pruning_default x)
             (clear_and_init x d [dep] destinations dt_depart True True s) of
        None \<Rightarrow> None
      | Some s1 \<Rightarrow>
          (case (if type (best_now (b_dest s1)) \<noteq> uninitialized
                 then collect (makePathes (\<lambda>rp i. makePath fuel x d s1 rp i False) x d s1
                                 destinations dt_depart)
                 else Some (Inr [])) of
             None \<Rightarrow> None
           | Some (Inl e) \<Rightarrow> Some (Inl e)
           | Some (Inr temp) \<Rightarrow>
               (case compute_reverse_all_passes fuel x d destinations dt_depart rest s1 of
                  None \<Rightarrow> None
                | Some (Inl e) \<Rightarrow> Some (Inl e)
                | Some (Inr (others, s2)) \<Rightarrow> Some (Inr (temp @ others, s2)))))"

text \<open>The first pass of \<^verbatim>\<open>compute_reverse_all\<close> (lines 383 to 386).\<close>

definition compute_reverse_all_first_pass ::
  "nat \<Rightarrow> 'b externals \<Rightarrow> Data \<Rightarrow> (idx_t \<times> real) list \<Rightarrow> (idx_t \<times> real) list \<Rightarrow> DateTime \<Rightarrow> DateTime
    \<Rightarrow> (string \<times> string) list \<Rightarrow> 'b RAPTOR \<Rightarrow> 'b RAPTOR option" where
  "compute_reverse_all_first_pass fuel x d departs destinations dt_depart borne forbidden s =
     (let s1 = set_routes_valides x d (DateTime_date x dt_depart) forbidden s;
          departures = getDepartures x destinations dt_depart False d;
          s2 = clear_and_init x d departures departs borne False True s1
      in boucleRAPTORreverse fuel x d (global_pruning_default x) s2)"

definition compute_reverse_all ::
  "nat \<Rightarrow> 'b externals \<Rightarrow> Data \<Rightarrow> (idx_t \<times> real) list \<Rightarrow> (idx_t \<times> real) list \<Rightarrow> DateTime \<Rightarrow> DateTime
    \<Rightarrow> (string \<times> string) list \<Rightarrow> 'b RAPTOR \<Rightarrow> (error + Path list \<times> 'b RAPTOR) option" where
  "compute_reverse_all fuel x d departs destinations dt_depart borne forbidden s =
     (case compute_reverse_all_first_pass fuel x d departs destinations dt_depart borne forbidden s of
        None \<Rightarrow> None
      | Some s3 \<Rightarrow>
          if type (best_now (b_dest s3)) = uninitialized then Some (Inr ([], s3))
          else compute_reverse_all_passes fuel x d destinations dt_depart
                 (getDepartures_retour x destinations departs True (retour s3) d) s3)"

section \<open>A small instance\<close>

text \<open>
  An instance of the externals and a timetable small enough to run the model on: the
  theorems are applied to it below. Modelled from the spec: a \<^verbatim>\<open>DateTime\<close> is the day
  times 86400 plus the seconds of the day, \<^verbatim>\<open>update\<close> rolls forwards to the next
  occurrence of a time of day and \<^verbatim>\<open>updatereverse\<close> backwards; the tracker keeps the
  egress of each destination route point and absorbs an offer that is at least as good
  as its best label; the trip searches look for the first trip that leaves at or after
  (the last that arrives at or before) a time of day.
\<close>

record best_dest_map = best_dest +
  map_date_time :: "(idx_t \<times> real) list"

definition ex_update :: "DateTime \<Rightarrow> nat \<Rightarrow> DateTime" where
  "ex_update dt h =
     (if h < dt mod 86400 then (dt div 86400 + 1) * 86400 + h else (dt div 86400) * 86400 + h)"

definition ex_updatereverse :: "DateTime \<Rightarrow> nat \<Rightarrow> DateTime" where
  "ex_updatereverse dt h =
     (if dt mod 86400 < h then (dt div 86400 - 1) * 86400 + h else (dt div 86400) * 86400 + h)"

definition ex_earliest_trip :: "Route \<Rightarrow> nat \<Rightarrow> DateTime \<Rightarrow> Data \<Rightarrow> int" where
  "ex_earliest_trip route ord dt d =
     (case filter (\<lambda>vjidx. dt mod 86400
                      \<le> departure_time (stop_times d ! (stop_time_list (vehicle_journeys d ! vjidx) ! ord)))
             (vehicle_journey_list route) of
        [] \<Rightarrow> - 1
      | vjidx # _ \<Rightarrow> int vjidx)"

definition ex_tardiest_trip :: "Route \<Rightarrow> nat \<Rightarrow> DateTime \<Rightarrow> Data \<Rightarrow> int" where
  "ex_tardiest_trip route ord dt d =
     (case rev (filter (\<lambda>vjidx. arrival_time (stop_times d ! (stop_time_list (vehicle_journeys d ! vjidx) ! ord))
                         \<le> dt mod 86400)
                  (vehicle_journey_list route)) of
        [] \<Rightarrow> - 1
      | vjidx # _ \<Rightarrow> int vjidx)"

definition ex_check2 :: "ValidityPattern \<Rightarrow> nat \<Rightarrow> bool" where
  "ex_check2 vp day =
     ((day < length vp \<and> vp ! day) \<or> (day + 1 < length vp \<and> vp ! (day + 1))
      \<or> (0 < day \<and> day - 1 < length vp \<and> vp ! (day - 1)))"

definition ex_reinit :: "best_dest_map \<Rightarrow> nat \<Rightarrow> DateTime \<Rightarrow> bool \<Rightarrow> best_dest_map" where
  "ex_reinit bd n borne clockw =
     bd\<lparr>best_now := \<lparr>stop_time_idx = uint32_max, arrival = borne, departure = borne,
                     type = uninitialized, rpid_embarquement = uint32_max\<rparr>,
        best_now_rpid := uint32_max, map_date_time := []\<rparr>"

definition ex_ajouter_destination :: "best_dest_map \<Rightarrow> idx_t \<Rightarrow> real \<Rightarrow> best_dest_map" where
  "ex_ajouter_destination bd rpid w = bd\<lparr>map_date_time := (rpid, w) # map_date_time bd\<rparr>"

definition ex_ajouter_best_reverse ::
  "best_dest_map \<Rightarrow> idx_t \<Rightarrow> type_retour \<Rightarrow> nat \<Rightarrow> bool \<times> best_dest_map" where
  "ex_ajouter_best_reverse bd rpid l cnt =
     (case map_of (map_date_time bd) rpid of
        None \<Rightarrow> (False, bd)
      | Some w \<Rightarrow>
          if departure (best_now bd) \<le> departure l - nat \<lfloor>w\<rfloor>
          then (True, bd\<lparr>best_now := l\<lparr>departure := departure l - nat \<lfloor>w\<rfloor>\<rparr>,
                         best_now_rpid := rpid\<rparr>)
          else (False, bd))"

definition ex_ajouter_best ::
  "best_dest_map \<Rightarrow> idx_t \<Rightarrow> type_retour \<Rightarrow> nat \<Rightarrow> bool \<Rightarrow> bool \<times> best_dest_map" where
  "ex_ajouter_best bd rpid l cnt clockw =
     (if \<not> clockw then ex_ajouter_best_reverse bd rpid l cnt
      else case map_of (map_date_time bd) rpid of
        None \<Rightarrow> (False, bd)
      | Some w \<Rightarrow>
          if arrival l + nat \<lfloor>w\<rfloor> \<le> arrival (best_now bd)
          then (True, bd\<lparr>best_now := l\<lparr>arrival := arrival l + nat \<lfloor>w\<rfloor>\<rparr>,
                         best_now_rpid := rpid\<rparr>)
          else (False, bd))"

definition ex_getDepartures ::
  "(idx_t \<times> real) list \<Rightarrow> DateTime \<Rightarrow> bool \<Rightarrow> Data \<Rightarrow> Departure_Type list" where
  "ex_getDepartures departs dt clockw d =
     concat (map (\<lambda>sp_m.
               map (\<lambda>rp. \<lparr>dep_rpidx = rp,
                          dep_arrival = (if clockw then dt + nat \<lfloor>snd sp_m / 1.38\<rfloor>
                                         else dt - nat \<lfloor>snd sp_m / 1.38\<rfloor>),
                          dep_departure = (if clockw then dt + nat \<lfloor>snd sp_m / 1.38\<rfloor>
                                           else dt - nat \<lfloor>snd sp_m / 1.38\<rfloor>)\<rparr>)
                 (sp_route_point_list (stop_points d ! fst sp_m)))
             departs)"

definition ex_getDepartures_retour ::
  "(idx_t \<times> real) list \<Rightarrow> (idx_t \<times> real) list \<Rightarrow> bool \<Rightarrow> type_retour list list \<Rightarrow> Data
    \<Rightarrow> Departure_Type list" where
  "ex_getDepartures_retour departs destinations clockw rt d =
     concat (map (\<lambda>sp_m.
               concat (map (\<lambda>rp.
                         if type (last rt ! rp) \<noteq> uninitialized
                         then [\<lparr>dep_rpidx = rp, dep_arrival = arrival (last rt ! rp),
                                dep_departure = departure (last rt ! rp)\<rparr>]
                         else [])
                 (sp_route_point_list (stop_points d ! fst sp_m))))
             destinations)"

definition ex_x :: "unit best_dest_map_ext externals" where
  "ex_x =
     \<lparr>invalid_idx = uint32_max, global_pruning_default = True,
      DateTime_inf = uint32_max, DateTime_min = 0,
      DateTime_update = ex_update, DateTime_updatereverse = ex_updatereverse,
      DateTime_date = (\<lambda>dt. dt div 86400), DateTime_make = (\<lambda>dy h. dy * 86400 + h),
      DateTime_plus_double = (\<lambda>dt r. dt + nat \<lfloor>r\<rfloor>),
      DateTime_minus_double = (\<lambda>dt r. dt - nat \<lfloor>r\<rfloor>),
      earliest_trip = ex_earliest_trip, tardiest_trip = ex_tardiest_trip,
      check2 = ex_check2, reinit = ex_reinit, ajouter_destination = ex_ajouter_destination,
      ajouter_best = ex_ajouter_best, ajouter_best_reverse = ex_ajouter_best_reverse,
      getDepartures = ex_getDepartures, getDepartures_retour = ex_getDepartures_retour\<rparr>"

text \<open>
  The timetable: one line with one route over the stop points 0 and 1 (route points 0
  and 1) and one trip, which leaves stop 0 at 08:00 and reaches stop 1 at 08:10.
\<close>

definition ex_uninit :: "DateTime \<Rightarrow> type_retour" where
  "ex_uninit dt =
     \<lparr>stop_time_idx = uint32_max, arrival = dt, departure = dt, type = uninitialized,
      rpid_embarquement = uint32_max\<rparr>"

definition ex_stop_time :: "idx_t \<Rightarrow> nat \<Rightarrow> idx_t \<Rightarrow> idx_t \<Rightarrow> nat \<Rightarrow> StopTime" where
  "ex_stop_time i h vjidx rp z =
     \<lparr>st_idx = i, arrival_time = h, departure_time = h, vehicle_journey_idx = vjidx,
      route_point_idx = rp, local_traffic_zone = z, pick_up_allowed = True,
      drop_off_allowed = True\<rparr>"

definition ex_d :: Data where
  "ex_d =
     \<lparr>routes = [\<lparr>r_idx = 0, line_idx = 0, mode_type_idx = 0, r_external_code = ''R1'',
                 vehicle_journey_list = [0], route_point_list = [0, 1]\<rparr>],
      route_points = [\<lparr>rp_idx = 0, route_idx = 0, order = 0, stop_point_idx = 0\<rparr>,
                      \<lparr>rp_idx = 1, route_idx = 0, order = 1, stop_point_idx = 1\<rparr>],
      stop_points = [\<lparr>sp_route_point_list = [0]\<rparr>, \<lparr>sp_route_point_list = [1]\<rparr>],
      stop_areas = [\<lparr>stop_point_list = [0]\<rparr>, \<lparr>stop_point_list = [1]\<rparr>],
      stop_times = [ex_stop_time 0 28800 0 0 uint32_max, ex_stop_time 1 29400 0 1 uint32_max],
      vehicle_journeys = [\<lparr>validity_pattern_idx = 0, stop_time_list = [0, 1]\<rparr>],
      lines = [\<lparr>l_external_code = ''L1''\<rparr>],
      mode_types = [\<lparr>m_external_code = ''bus''\<rparr>],
      validity_patterns = [[True]],
      foot_path = [], footpath_index = [(0, 0), (0, 0)],
      footpath_rp_forward = [], footpath_rp_backward = [],
      retour_constant = [ex_uninit uint32_max, ex_uninit uint32_max],
      retour_constant_reverse = [ex_uninit 0, ex_uninit 0]\<rparr>"

definition ex_bd :: best_dest_map where
  "ex_bd = \<lparr>best_now = ex_uninit uint32_max, best_now_rpid = uint32_max, map_date_time = []\<rparr>"

text \<open>An engine that has not run yet.\<close>

definition ex_s0 :: "unit best_dest_map_ext RAPTOR" where
  "ex_s0 =
     \<lparr>retour = [], best = [], Q = [], marked_rp = [False, False], marked_sp = [False, False],
      routes_valides = [], count = 0, b_dest = ex_bd\<rparr>"

text \<open>
  The engine in the second round of a forward search from stop 0 at 07:30: round 0 holds
  the seed, round 1 is still empty.
\<close>

definition ex_seed :: "DateTime \<Rightarrow> type_retour" where
  "ex_seed dt =
     \<lparr>stop_time_idx = uint32_max, arrival = dt, departure = dt, type = depart,
      rpid_embarquement = uint32_max\<rparr>"

definition ex_s2 :: "unit best_dest_map_ext RAPTOR" where
  "ex_s2 =
     \<lparr>retour = [[ex_seed 27000, ex_uninit uint32_max], [ex_uninit uint32_max, ex_uninit uint32_max]],
      best = [ex_seed 27000, ex_uninit uint32_max], Q = [0],
      marked_rp = [False, False], marked_sp = [False, False],
      routes_valides = [True], count = 1, b_dest = ex_bd\<rparr>"

text \<open>
  The timetable with a footpath of 60 seconds from stop 0 to stop 1, and the engine
  before the first round of a forward search from stop 0 at 07:30.
\<close>

definition ex_dw :: Data where
  "ex_dw = ex_d\<lparr>foot_path := [\<lparr>destination_stop_point_idx = 1, fp_duration = 60\<rparr>],
                footpath_index := [(0, 1), (1, 0)]\<rparr>"

definition ex_s1 :: "unit best_dest_map_ext RAPTOR" where
  "ex_s1 =
     \<lparr>retour = [[ex_seed 27000, ex_uninit uint32_max]],
      best = [ex_seed 27000, ex_uninit uint32_max], Q = [0],
      marked_rp = [False, False], marked_sp = [True, False],
      routes_valides = [True], count = 0, b_dest = ex_bd\<rparr>"

text \<open>
  The engine after the forward search from stop 0 at 07:30 has reached route point 1
  with the trip, and the path of that journey.
\<close>

definition ex_vj :: type_retour where
  "ex_vj = \<lparr>stop_time_idx = 1, arrival = 29400, departure = 29400, type = vj,
            rpid_embarquement = 0\<rparr>"

definition ex_s3 :: "unit best_dest_map_ext RAPTOR" where
  "ex_s3 =
     \<lparr>retour = [[ex_seed 27000, ex_uninit uint32_max], [ex_uninit uint32_max, ex_vj]],
      best = [ex_seed 27000, ex_vj], Q = [int_max],
      marked_rp = [False, False], marked_sp = [False, False],
      routes_valides = [True], count = 1, b_dest = ex_bd\<rparr>"

definition ex_path :: Path where
  "ex_path =
     \<lparr>items = [\<lparr>item_type = public_transport, item_stop_points = [0, 1],
                arrivals = [28800, 29400], departures = [28800, 29400], vj_idx = 0,
                item_arrival = 29400, item_departure = 28800\<rparr>],
      duration = 600, nb_changes = 0, percent_visited = 100\<rparr>"

text \<open>
  The engine after the first pass of a search from stop 1 to stop 0 at 07:30, forwards
  and backwards: no trip runs that way.
\<close>

definition ex_none_forward :: "unit best_dest_map_ext RAPTOR" where
  "ex_none_forward =
     \<lparr>retour = [[ex_uninit uint32_max, ex_seed 27000], [ex_uninit uint32_max, ex_uninit uint32_max]],
      best = [ex_uninit uint32_max, ex_seed 27000], Q = [int_max],
      marked_rp = [False, False], marked_sp = [False, False],
      routes_valides = [True], count = 1,
      b_dest = \<lparr>best_now = ex_uninit uint32_max, best_now_rpid = uint32_max,
                 map_date_time = [(0, 0)]\<rparr>\<rparr>"

definition ex_none_reverse :: "unit best_dest_map_ext RAPTOR" where
  "ex_none_reverse =
     \<lparr>retour = [[ex_seed 27000, ex_uninit 0], [ex_uninit 0, ex_uninit 0]],
      best = [ex_seed 27000, ex_uninit 0], Q = [- 1],
      marked_rp = [False, False], marked_sp = [False, False],
      routes_valides = [True], count = 1,
      b_dest = \<lparr>best_now = ex_uninit 0, best_now_rpid = uint32_max,
                 map_date_time = [(1, 0)]\<rparr>\<rparr>"

text \<open>
  The timetable with local traffic zones 5 and 7 at the two stop-times of the trip.
\<close>

definition ex_dz :: Data where
  "ex_dz = ex_d\<lparr>stop_times := [ex_stop_time 0 28800 0 0 5, ex_stop_time 1 29400 0 1 7]\<rparr>"

text \<open>
  An engine after two rounds of a forward pass, for a request to arrive by 09:00 with the
  destination stop points 0 (138 meters away) and 1 (at the target): route point 0 was
  reached in round 1 at 08:58:20, route point 1 in round 2 at 09:00:30.
\<close>

definition ex_vj_at :: "idx_t \<Rightarrow> DateTime \<Rightarrow> type_retour" where
  "ex_vj_at st dt =
     \<lparr>stop_time_idx = st, arrival = dt, departure = dt, type = vj, rpid_embarquement = 0\<rparr>"

definition ex_s4 :: "unit best_dest_map_ext RAPTOR" where
  "ex_s4 =
     \<lparr>retour = [[ex_uninit uint32_max, ex_uninit uint32_max],
                [ex_vj_at 0 32300, ex_uninit uint32_max],
                [ex_uninit uint32_max, ex_vj_at 1 32430]],
      best = [ex_vj_at 0 32300, ex_vj_at 1 32430], Q = [int_max],
      marked_rp = [False, False], marked_sp = [False, False],
      routes_valides = [True], count = 2, b_dest = ex_bd\<rparr>"






section \<open>Predicates of the statements\<close>


text \<open>
  The two conditions of \<^verbatim>\<open>set_routes_valides\<close>, in the words of the specification: a
  route is forbidden when a pair of the filter names its line, the route itself or its
  mode by their external codes; it circulates when the validity pattern of one of its
  vehicle journeys answers \<^verbatim>\<open>check2\<close> for the date. The identifiers of the routes are
  dense when each route holds its own position.
\<close>

definition route_forbidden :: "Data \<Rightarrow> (string \<times> string) list \<Rightarrow> Route \<Rightarrow> bool" where
  "route_forbidden d forbidden route \<longleftrightarrow>
     (\<exists>pair \<in> set forbidden.
        (fst pair = ''line'' \<and> snd pair = l_external_code (lines d ! line_idx route))
        \<or> (fst pair = ''route'' \<and> snd pair = r_external_code route)
        \<or> (fst pair = ''mode'' \<and> snd pair = m_external_code (mode_types d ! mode_type_idx route)))"

definition route_circulates :: "'b externals \<Rightarrow> Data \<Rightarrow> nat \<Rightarrow> Route \<Rightarrow> bool" where
  "route_circulates x d dat route \<longleftrightarrow>
     (\<exists>vjidx \<in> set (vehicle_journey_list route).
        check2 x (validity_patterns d ! validity_pattern_idx (vehicle_journeys d ! vjidx)) dat)"

definition dense_route_ids :: "Data \<Rightarrow> bool" where
  "dense_route_ids d \<longleftrightarrow> (\<forall>j < length (routes d). r_idx (routes d ! j) = j)"

text \<open>
  Two states of the locals of the scan that differ at most in \<^verbatim>\<open>l_zone\<close>, and two states
  of the scan of a route in which a difference of \<^verbatim>\<open>l_zone\<close> cannot be read any more:
  the zone is the same as soon as a trip is boarded.
\<close>

definition same_but_zone :: "scan \<Rightarrow> scan \<Rightarrow> bool" where
  "same_but_zone sc sc' \<longleftrightarrow> sc\<lparr>sc_l_zone := 0\<rparr> = sc'\<lparr>sc_l_zone := 0\<rparr>"

definition zone_unread :: "scan \<times> 'b RAPTOR \<Rightarrow> scan \<times> 'b RAPTOR \<Rightarrow> bool" where
  "zone_unread a b \<longleftrightarrow>
     snd a = snd b \<and> same_but_zone (fst a) (fst b)
     \<and> (sc_t (fst a) \<ge> 0 \<longrightarrow> sc_l_zone (fst a) = sc_l_zone (fst b))"











section \<open>Running the model on the instance\<close>

lemma ex_x_simps:
  "invalid_idx ex_x = 4294967295" "global_pruning_default ex_x = True"
  "DateTime_inf ex_x = 4294967295" "DateTime_min ex_x = 0"
  "DateTime_update ex_x = ex_update" "DateTime_updatereverse ex_x = ex_updatereverse"
  "DateTime_date ex_x = (\<lambda>dt. dt div 86400)" "DateTime_make ex_x = (\<lambda>dy h. dy * 86400 + h)"
  "DateTime_plus_double ex_x = (\<lambda>dt r. dt + nat \<lfloor>r\<rfloor>)"
  "DateTime_minus_double ex_x = (\<lambda>dt r. dt - nat \<lfloor>r\<rfloor>)"
  "earliest_trip ex_x = ex_earliest_trip" "tardiest_trip ex_x = ex_tardiest_trip"
  "check2 ex_x = ex_check2" "reinit ex_x = ex_reinit"
  "ajouter_destination ex_x = ex_ajouter_destination"
  "ajouter_best ex_x = ex_ajouter_best" "ajouter_best_reverse ex_x = ex_ajouter_best_reverse"
  "getDepartures ex_x = ex_getDepartures" "getDepartures_retour ex_x = ex_getDepartures_retour"
  by (simp_all add: ex_x_def uint32_max_def)

lemma ex_d_simps:
  "routes ex_d = [\<lparr>r_idx = 0, line_idx = 0, mode_type_idx = 0, r_external_code = ''R1'',
                   vehicle_journey_list = [0], route_point_list = [0, 1]\<rparr>]"
  "route_points ex_d = [\<lparr>rp_idx = 0, route_idx = 0, order = 0, stop_point_idx = 0\<rparr>,
                        \<lparr>rp_idx = 1, route_idx = 0, order = 1, stop_point_idx = 1\<rparr>]"
  "stop_points ex_d = [\<lparr>sp_route_point_list = [0]\<rparr>, \<lparr>sp_route_point_list = [1]\<rparr>]"
  "stop_times ex_d = [ex_stop_time 0 28800 0 0 4294967295, ex_stop_time 1 29400 0 1 4294967295]"
  "vehicle_journeys ex_d = [\<lparr>validity_pattern_idx = 0, stop_time_list = [0, 1]\<rparr>]"
  "lines ex_d = [\<lparr>l_external_code = ''L1''\<rparr>]"
  "mode_types ex_d = [\<lparr>m_external_code = ''bus''\<rparr>]"
  "validity_patterns ex_d = [[True]]"
  "foot_path ex_d = []" "footpath_index ex_d = [(0, 0), (0, 0)]"
  "footpath_rp_forward ex_d = []" "footpath_rp_backward ex_d = []"
  "retour_constant ex_d = [ex_uninit 4294967295, ex_uninit 4294967295]"
  "retour_constant_reverse ex_d = [ex_uninit 0, ex_uninit 0]"
  by (simp_all add: ex_d_def uint32_max_def)

lemma ex_dw_simps:
  "routes ex_dw = routes ex_d" "route_points ex_dw = route_points ex_d"
  "stop_points ex_dw = stop_points ex_d" "stop_times ex_dw = stop_times ex_d"
  "vehicle_journeys ex_dw = vehicle_journeys ex_d" "lines ex_dw = lines ex_d"
  "mode_types ex_dw = mode_types ex_d" "validity_patterns ex_dw = validity_patterns ex_d"
  "foot_path ex_dw = [\<lparr>destination_stop_point_idx = 1, fp_duration = 60\<rparr>]"
  "footpath_index ex_dw = [(0, 1), (1, 0)]"
  "footpath_rp_forward ex_dw = []" "footpath_rp_backward ex_dw = []"
  "retour_constant ex_dw = retour_constant ex_d"
  "retour_constant_reverse ex_dw = retour_constant_reverse ex_d"
  by (simp_all add: ex_dw_def ex_d_def)

lemma ex_dz_simps:
  "routes ex_dz = routes ex_d" "route_points ex_dz = route_points ex_d"
  "stop_points ex_dz = stop_points ex_d"
  "stop_times ex_dz = [ex_stop_time 0 28800 0 0 5, ex_stop_time 1 29400 0 1 7]"
  "vehicle_journeys ex_dz = vehicle_journeys ex_d" "lines ex_dz = lines ex_d"
  "mode_types ex_dz = mode_types ex_d" "validity_patterns ex_dz = validity_patterns ex_d"
  "foot_path ex_dz = []" "footpath_index ex_dz = [(0, 0), (0, 0)]"
  "footpath_rp_forward ex_dz = []" "footpath_rp_backward ex_dz = []"
  "retour_constant ex_dz = retour_constant ex_d"
  "retour_constant_reverse ex_dz = retour_constant_reverse ex_d"
  by (simp_all add: ex_dz_def ex_d_def)


lemmas ex_defs = ex_x_simps ex_d_simps ex_dw_simps ex_dz_simps ex_s4_def ex_vj_at_def ex_s0_def ex_s1_def ex_s2_def ex_s3_def ex_vj_def ex_path_def
  ex_none_forward_def ex_none_reverse_def ex_bd_def ex_uninit_def ex_seed_def
  ex_stop_time_def ex_update_def ex_updatereverse_def ex_earliest_trip_def ex_tardiest_trip_def
  ex_check2_def ex_reinit_def ex_ajouter_destination_def ex_ajouter_best_def
  ex_ajouter_best_reverse_def ex_getDepartures_def ex_getDepartures_retour_def uint32_max_def
  int_max_def

lemmas init_defs = clear_and_init_def init_depart_def init_destination_rp_def
  set_routes_valides_def set_routes_valides_route_def forbidden_step_def type_retour_depart_def


lemmas path_defs = makePath_def makePathreverse_def makePath_step_def makePath_trip_def
  makePath_connection_def finish_path_def reverse_item_def push_times_def vector_at_def
  PathItem_empty_def PathItem_of_def makePathes_def makePathes_round_def makePathes_rp_def
  makePathesreverse_def makePathesreverse_round_def makePathesreverse_rp_def

lemmas loop_defs = boucleRAPTOR_def boucleRAPTORreverse_def raptor_loop_def scan_init_def
  raptor_round_def scan_route_def init_route_scan_def scan_route_point_def make_queue_def
  raptor_visitor_store_better_def raptor_reverse_visitor_store_better_def
  type_retour_st_def type_retour_typed_def type_retour_connection_def
  route_path_connections_forward_def route_path_connections_backward_def
  connection_forward_step_def connection_backward_step_def mark_connection_forward_def
  mark_connection_backward_def equal_range_def set_bits_def marcheapied_def
  marcheapiedreverse_def foot_path_run_def foot_path_sp_def find_best_rp_def best_rp_step_def
  mark_same_stop_def mark_footpath_def mark_footpath_rp_def install_walking_def
  first_stoptime_def

section \<open>What \<^verbatim>\<open>store_better\<close> stores\<close>



section \<open>The footpath relaxer\<close>


lemma install_walking_fields:
  "retour (install_walking x d v rp l s) = (retour s)[count s := (retour s ! count s)[rp := l]]"
  "best (install_walking x d v rp l s) = (best s)[rp := l]"
  "count (install_walking x d v rp l s) = count s"
  "marked_sp (install_walking x d v rp l s) = marked_sp s"
  "marked_rp (install_walking x d v rp l s) = marked_rp s"
  "routes_valides (install_walking x d v rp l s) = routes_valides s"
  by (simp_all add: install_walking_def Let_def split: prod.splits)

text \<open>
  C6. In the footpath relaxer, the label of a footpath between stop points (step 4) is
  installed at a route point other than the pivot when the combined time improves or
  equals the current best there (\<open>\<le>\<close> on arrivals forwards, \<open>\<ge>\<close> on departures
  backwards), whereas the label of a transfer at the same stop point (step 3) is
  installed only when the time with the slack strictly improves the best (\<open><\<close>
  forwards, \<open>>\<close> backwards). In the other cases the labels are left as they were. The
  combined time is the one the duration cache of the source holds.
\<close>

theorem foot_path_ties:
  assumes "count s < length (retour s)" and "rp < length (retour s ! count s)"
    and "rp < length (best s)"
  shows
    "(let s' = mark_same_stop x d walking_visitor bd best_rp s rp;
          l = type_retour_connection x bd bd best_rp
      in if rp \<noteq> best_rp \<and> bd < arrival (best s ! rp)
         then retour s' ! count s ! rp = l \<and> best s' ! rp = l
         else retour s' = retour s \<and> best s' = best s) \<and>
     (let s' = mark_same_stop x d walking_backwards_visitor bd best_rp s rp;
          l = type_retour_connection x bd bd best_rp
      in if rp \<noteq> best_rp \<and> bd > departure (best s ! rp)
         then retour s' ! count s ! rp = l \<and> best s' ! rp = l
         else retour s' = retour s \<and> best s' = best s) \<and>
     (let s' = snd (mark_footpath_rp x d walking_visitor best_rp previous dur ((prec, nxt), s) rp);
          n = (if int dur \<noteq> prec then previous + dur else nxt);
          l = type_retour_connection x n n best_rp
      in if rp \<noteq> best_rp \<and> n \<le> arrival (best s ! rp)
         then retour s' ! count s ! rp = l \<and> best s' ! rp = l
         else retour s' = retour s \<and> best s' = best s) \<and>
     (let s' = snd (mark_footpath_rp x d walking_backwards_visitor best_rp previous dur
                      ((prec, nxt), s) rp);
          n = (if int dur \<noteq> prec then previous - dur else nxt);
          l = type_retour_connection x n n best_rp
      in if rp \<noteq> best_rp \<and> n \<ge> departure (best s ! rp)
         then retour s' ! count s ! rp = l \<and> best s' ! rp = l
         else retour s' = retour s \<and> best s' = best s)"
proof (intro conjI)
  show "(let s' = mark_same_stop x d walking_visitor bd best_rp s rp;
          l = type_retour_connection x bd bd best_rp
      in if rp \<noteq> best_rp \<and> bd < arrival (best s ! rp)
         then retour s' ! count s ! rp = l \<and> best s' ! rp = l
         else retour s' = retour s \<and> best s' = best s)"
    using assms by (simp add: mark_same_stop_def install_walking_fields Let_def)
  show "(let s' = mark_same_stop x d walking_backwards_visitor bd best_rp s rp;
          l = type_retour_connection x bd bd best_rp
      in if rp \<noteq> best_rp \<and> bd > departure (best s ! rp)
         then retour s' ! count s ! rp = l \<and> best s' ! rp = l
         else retour s' = retour s \<and> best s' = best s)"
    using assms by (simp add: mark_same_stop_def install_walking_fields Let_def)
  show "(let s' = snd (mark_footpath_rp x d walking_visitor best_rp previous dur ((prec, nxt), s) rp);
          n = (if int dur \<noteq> prec then previous + dur else nxt);
          l = type_retour_connection x n n best_rp
      in if rp \<noteq> best_rp \<and> n \<le> arrival (best s ! rp)
         then retour s' ! count s ! rp = l \<and> best s' ! rp = l
         else retour s' = retour s \<and> best s' = best s)"
    using assms
    by (cases "int dur = prec")
       (auto simp: mark_footpath_rp_def install_walking_fields Let_def)
  show "(let s' = snd (mark_footpath_rp x d walking_backwards_visitor best_rp previous dur
                      ((prec, nxt), s) rp);
          n = (if int dur \<noteq> prec then previous - dur else nxt);
          l = type_retour_connection x n n best_rp
      in if rp \<noteq> best_rp \<and> n \<ge> departure (best s ! rp)
         then retour s' ! count s ! rp = l \<and> best s' ! rp = l
         else retour s' = retour s \<and> best s' = best s)"
    using assms
    by (cases "int dur = prec")
       (auto simp: mark_footpath_rp_def install_walking_fields Let_def)
qed

text \<open>
  The theorem at the instance, on a tie: the best arrival at route point 1 is
  \<open>4294967295\<close>; the transfer at the same stop point with that time is not installed, the
  footpath of 60 seconds that arrives at that time is.
\<close>

theorem foot_path_ties_witness:
  "count ex_s2 < length (retour ex_s2) \<and> 1 < length (retour ex_s2 ! count ex_s2) \<and>
   1 < length (best ex_s2) \<and>
   (let s' = mark_same_stop ex_x ex_d walking_visitor 4294967295 0 ex_s2 1;
        l = type_retour_connection ex_x 4294967295 4294967295 0
    in if 1 \<noteq> (0::nat) \<and> 4294967295 < arrival (best ex_s2 ! 1)
       then retour s' ! count ex_s2 ! 1 = l \<and> best s' ! 1 = l
       else retour s' = retour ex_s2 \<and> best s' = best ex_s2) \<and>
   (let s' = snd (mark_footpath_rp ex_x ex_d walking_visitor 0 4294967235 60 ((- 1, 0), ex_s2) 1);
        n = (if int 60 \<noteq> - 1 then 4294967235 + 60 else 0);
        l = type_retour_connection ex_x n n 0
    in if 1 \<noteq> (0::nat) \<and> n \<le> arrival (best ex_s2 ! 1)
       then retour s' ! count ex_s2 ! 1 = l \<and> best s' ! 1 = l
       else retour s' = retour ex_s2 \<and> best s' = best ex_s2) \<and>
   retour (mark_same_stop ex_x ex_d walking_visitor 4294967295 0 ex_s2 1) = retour ex_s2 \<and>
   type (retour (snd (mark_footpath_rp ex_x ex_d walking_visitor 0 4294967235 60
                        ((- 1, 0), ex_s2) 1)) ! 1 ! 1) = connection"
proof -
  have h1: "count ex_s2 < length (retour ex_s2)" by (simp add: ex_defs)
  have h2: "1 < length (retour ex_s2 ! count ex_s2)" by (simp add: ex_defs)
  have h3: "1 < length (best ex_s2)" by (simp add: ex_defs)
  note th = foot_path_ties[OF h1 h2 h3, of ex_x ex_d 4294967295 0 4294967235 60 "- 1" 0]
  have e1: "retour (mark_same_stop ex_x ex_d walking_visitor 4294967295 0 ex_s2 1) = retour ex_s2"
    by (simp add: ex_defs loop_defs Let_def cong: let_weak_cong prod.case_cong_weak)
  have e2: "type (retour (snd (mark_footpath_rp ex_x ex_d walking_visitor 0 4294967235 60
                        ((- 1, 0), ex_s2) 1)) ! 1 ! 1) = connection"
    by (simp add: ex_defs loop_defs Let_def cong: let_weak_cong prod.case_cong_weak)
  show ?thesis
    by (intro conjI h1 h2 h3 e1 e2 conjunct1[OF th] conjunct1[OF conjunct2[OF conjunct2[OF th]]])
qed













section \<open>The validity filter\<close>

lemma forbidden_fold:
  "foldl (forbidden_step line route mode) f forbidden \<longleftrightarrow>
     f \<or> (\<exists>pair \<in> set forbidden.
        (fst pair = ''line'' \<and> snd pair = l_external_code line)
        \<or> (fst pair = ''route'' \<and> snd pair = r_external_code route)
        \<or> (fst pair = ''mode'' \<and> snd pair = m_external_code mode))"
proof (induction forbidden arbitrary: f)
  case Nil
  show ?case by simp
next
  case (Cons p ps)
  show ?case unfolding foldl_Cons Cons.IH
    by (auto simp: forbidden_step_def Let_def)
qed

lemma validate_route_eq:
  "validate_route x d dat route vjs rv =
     (if \<exists>vjidx \<in> set vjs.
           check2 x (validity_patterns d ! validity_pattern_idx (vehicle_journeys d ! vjidx)) dat
      then rv[r_idx route := True] else rv)"
  by (induction vjs) auto

lemma set_routes_valides_route_eq:
  "set_routes_valides_route x d dat forbidden rv route =
     (if \<not> route_forbidden d forbidden route \<and> route_circulates x d dat route
      then rv[r_idx route := True] else rv)"
  by (auto simp: set_routes_valides_route_def Let_def forbidden_fold validate_route_eq
      route_forbidden_def route_circulates_def)

lemma set_routes_valides_fold:
  assumes "\<forall>r \<in> set rs. r_idx r < length rv"
  shows "length (foldl (set_routes_valides_route x d dat forbidden) rv rs) = length rv \<and>
     (\<forall>i < length rv. foldl (set_routes_valides_route x d dat forbidden) rv rs ! i =
        (rv ! i \<or> (\<exists>r \<in> set rs. r_idx r = i \<and> \<not> route_forbidden d forbidden r
                                   \<and> route_circulates x d dat r)))"
  using assms
proof (induction rs arbitrary: rv)
  case Nil
  show ?case by simp
next
  case (Cons r rs)
  let ?rv1 = "set_routes_valides_route x d dat forbidden rv r"
  have l1: "length ?rv1 = length rv" by (simp add: set_routes_valides_route_eq)
  have "\<forall>r \<in> set rs. r_idx r < length ?rv1" using Cons.prems l1 by simp
  from Cons.IH[OF this] l1
  have ih: "length (foldl (set_routes_valides_route x d dat forbidden) ?rv1 rs) = length rv"
    "\<And>i. i < length rv \<Longrightarrow> foldl (set_routes_valides_route x d dat forbidden) ?rv1 rs ! i =
        (?rv1 ! i \<or> (\<exists>r \<in> set rs. r_idx r = i \<and> \<not> route_forbidden d forbidden r
                                    \<and> route_circulates x d dat r))"
    by simp_all
  have r1: "\<And>i. i < length rv \<Longrightarrow>
      ?rv1 ! i = (rv ! i \<or> (r_idx r = i \<and> \<not> route_forbidden d forbidden r
                              \<and> route_circulates x d dat r))"
    using Cons.prems by (auto simp: set_routes_valides_route_eq nth_list_update)
  show ?case using ih r1 by auto
qed

text \<open>
  C7. \<^verbatim>\<open>set_routes_valides\<close> marks a route valid if and only if no pair of the forbidden
  filter matches it (kind \<open>line\<close> against the external code of its line, \<open>route\<close>
  against its own, \<open>mode\<close> against that of its mode type) and the validity pattern of at
  least one of its vehicle journeys answers \<^verbatim>\<open>check2\<close> for the date. The routes are
  numbered by their positions, as the bitset is indexed by \<^verbatim>\<open>route.idx\<close>.
\<close>

theorem set_routes_valides_iff:
  assumes "dense_route_ids d" and "i < length (routes d)"
  shows "routes_valides (set_routes_valides x d dat forbidden s) ! i \<longleftrightarrow>
           \<not> route_forbidden d forbidden (routes d ! i) \<and> route_circulates x d dat (routes d ! i)"
proof -
  let ?rv = "replicate (length (routes d)) False"
  have dense: "\<forall>j < length (routes d). r_idx (routes d ! j) = j"
    using assms(1) by (simp add: dense_route_ids_def)
  have idx: "\<forall>r \<in> set (routes d). r_idx r < length ?rv"
    using dense by (auto simp: in_set_conv_nth)
  from set_routes_valides_fold[OF idx, of x d dat forbidden] assms(2)
  have "foldl (set_routes_valides_route x d dat forbidden) ?rv (routes d) ! i =
        (\<exists>r \<in> set (routes d). r_idx r = i \<and> \<not> route_forbidden d forbidden r
                                \<and> route_circulates x d dat r)"
    by simp
  moreover have "(\<exists>r \<in> set (routes d). r_idx r = i \<and> \<not> route_forbidden d forbidden r
                                         \<and> route_circulates x d dat r)
     \<longleftrightarrow> \<not> route_forbidden d forbidden (routes d ! i) \<and> route_circulates x d dat (routes d ! i)"
  proof
    assume "\<exists>r \<in> set (routes d). r_idx r = i \<and> \<not> route_forbidden d forbidden r
                                    \<and> route_circulates x d dat r"
    then obtain j where "j < length (routes d)" "r_idx (routes d ! j) = i"
      "\<not> route_forbidden d forbidden (routes d ! j)" "route_circulates x d dat (routes d ! j)"
      by (auto simp: in_set_conv_nth)
    moreover from this dense have "j = i" by auto
    ultimately show "\<not> route_forbidden d forbidden (routes d ! i)
                     \<and> route_circulates x d dat (routes d ! i)"
      by simp
  next
    assume "\<not> route_forbidden d forbidden (routes d ! i) \<and> route_circulates x d dat (routes d ! i)"
    moreover have "routes d ! i \<in> set (routes d)" using assms(2) by simp
    moreover have "r_idx (routes d ! i) = i" using dense assms(2) by simp
    ultimately show "\<exists>r \<in> set (routes d). r_idx r = i \<and> \<not> route_forbidden d forbidden r
                                            \<and> route_circulates x d dat r"
      by blast
  qed
  ultimately show ?thesis by (simp add: set_routes_valides_def)
qed

text \<open>
  The theorem at the instance: the route of line L1 is valid under a filter on line L2,
  and the model evaluates to that; under a filter on line L1 it is not.
\<close>

theorem set_routes_valides_iff_witness:
  "dense_route_ids ex_d \<and> 0 < length (routes ex_d) \<and>
   (routes_valides (set_routes_valides ex_x ex_d 0 [(''line'', ''L2'')] ex_s0) ! 0 \<longleftrightarrow>
      \<not> route_forbidden ex_d [(''line'', ''L2'')] (routes ex_d ! 0)
      \<and> route_circulates ex_x ex_d 0 (routes ex_d ! 0)) \<and>
   routes_valides (set_routes_valides ex_x ex_d 0 [(''line'', ''L2'')] ex_s0) = [True] \<and>
   routes_valides (set_routes_valides ex_x ex_d 0 [(''line'', ''L1'')] ex_s0) = [False]"
proof -
  have h1: "dense_route_ids ex_d" by (simp add: dense_route_ids_def ex_defs)
  have h2: "0 < length (routes ex_d)" by (simp add: ex_defs)
  have e1: "routes_valides (set_routes_valides ex_x ex_d 0 [(''line'', ''L2'')] ex_s0) = [True]"
    by (simp add: ex_defs init_defs Let_def cong: let_weak_cong prod.case_cong_weak)
  have e2: "routes_valides (set_routes_valides ex_x ex_d 0 [(''line'', ''L1'')] ex_s0) = [False]"
    by (simp add: ex_defs init_defs Let_def cong: let_weak_cong prod.case_cong_weak)
  show ?thesis
    by (intro conjI h1 h2 e1 e2 set_routes_valides_iff[OF h1 h2])
qed

section \<open>No journey found\<close>

text \<open>
  C8. In the entry points for one datetime, \<^verbatim>\<open>compute_all\<close> and
  \<^verbatim>\<open>compute_reverse_all\<close>, if the best label of the destination tracker is still
  uninitialized after the first pass (forward, respectively reverse), the function
  returns the empty list of paths; the engine is left as the first pass left it, so
  nothing is cleared, searched or reconstructed after it.
\<close>

theorem compute_all_no_journey:
  "(compute_all_first_pass fuel x d departs destinations dt_depart borne forbidden s = Some s1
      \<and> type (best_now (b_dest s1)) = uninitialized
    \<longrightarrow> compute_all fuel x d departs destinations dt_depart borne forbidden s = Some (Inr ([], s1))) \<and>
   (compute_reverse_all_first_pass fuel x d departs destinations dt_depart borne forbidden s = Some s2
      \<and> type (best_now (b_dest s2)) = uninitialized
    \<longrightarrow> compute_reverse_all fuel x d departs destinations dt_depart borne forbidden s
          = Some (Inr ([], s2)))"
  by (simp add: compute_all_def compute_reverse_all_def)

text \<open>The theorem at the instance: from stop 1 to stop 0, where no trip runs.\<close>

theorem compute_all_no_journey_witness:
  "compute_all_first_pass (Suc (Suc 0)) ex_x ex_d [(1, 0)] [(0, 0)] 27000 4294967295 [] ex_s0
     = Some ex_none_forward \<and>
   type (best_now (b_dest ex_none_forward)) = uninitialized \<and>
   compute_all (Suc (Suc 0)) ex_x ex_d [(1, 0)] [(0, 0)] 27000 4294967295 [] ex_s0
     = Some (Inr ([], ex_none_forward)) \<and>
   compute_reverse_all_first_pass (Suc (Suc 0)) ex_x ex_d [(1, 0)] [(0, 0)] 27000 4294967295 [] ex_s0
     = Some ex_none_reverse \<and>
   type (best_now (b_dest ex_none_reverse)) = uninitialized \<and>
   compute_reverse_all (Suc (Suc 0)) ex_x ex_d [(1, 0)] [(0, 0)] 27000 4294967295 [] ex_s0
     = Some (Inr ([], ex_none_reverse))"
proof -
  have h1: "compute_all_first_pass (Suc (Suc 0)) ex_x ex_d [(1, 0)] [(0, 0)] 27000 4294967295 []
              ex_s0 = Some ex_none_forward"
    by (simp add: compute_all_first_pass_def ex_defs init_defs loop_defs Let_def
        cong: let_weak_cong prod.case_cong_weak)
  have h2: "type (best_now (b_dest ex_none_forward)) = uninitialized" by (simp add: ex_defs)
  have h3: "compute_reverse_all_first_pass (Suc (Suc 0)) ex_x ex_d [(1, 0)] [(0, 0)] 27000
              4294967295 [] ex_s0 = Some ex_none_reverse"
    by (simp add: compute_reverse_all_first_pass_def ex_defs init_defs loop_defs Let_def
        cong: let_weak_cong prod.case_cong_weak)
  have h4: "type (best_now (b_dest ex_none_reverse)) = uninitialized" by (simp add: ex_defs)
  note th = compute_all_no_journey[of "Suc (Suc 0)" ex_x ex_d "[(1, 0)]" "[(0, 0)]" 27000
      4294967295 "[]" ex_s0 ex_none_forward ex_none_reverse]
  show ?thesis
    using h1 h2 h3 h4 mp[OF conjunct1[OF th]] mp[OF conjunct2[OF th]] by blast
qed

section \<open>The metadata of a path\<close>

lemma makePath_step_grows:
  assumes "makePath_step n x d s reverse m = Some (Inr m')"
    and "mp_rpid_embarquement m = invalid_idx x"
  shows "mp_rpid_embarquement m' = invalid_idx x
         \<and> length (mp_items m') = Suc (length (mp_items m))"
  using assms
  by (auto simp: makePath_step_def makePath_connection_def makePath_trip_def Let_def
      split: if_splits sum.splits option.splits prod.splits)

lemma makePath_loop_nonempty:
  assumes "makePath_loop fuel x d s reverse m = Some (Inr its)"
    and "mp_rpid_embarquement m = invalid_idx x"
  shows "length (mp_items m) < length its"
  using assms
proof (induction fuel arbitrary: m)
  case 0
  then show ?case by simp
next
  case (Suc n)
  from Suc.prems(1) obtain m' where st: "makePath_step n x d s reverse m = Some (Inr m')"
    by (auto split: option.splits sum.splits)
  from makePath_step_grows[OF st Suc.prems(2)]
  have g: "mp_rpid_embarquement m' = invalid_idx x"
    "length (mp_items m') = Suc (length (mp_items m))"
    by simp_all
  show ?case
  proof (cases "type (retour s ! mp_countb m' ! mp_current_rpid m') = depart")
    case True
    with Suc.prems(1) st have "its = mp_items m'" by simp
    with g show ?thesis by simp
  next
    case False
    with Suc.prems(1) st have "makePath_loop n x d s reverse m' = Some (Inr its)" by simp
    from Suc.IH[OF this g(1)] g(2) show ?thesis by simp
  qed
qed

lemma middle_items:
  assumes "2 < length xs"
  shows "map (\<lambda>i. xs ! i) [1..<length xs - 1] = butlast (tl xs)"
proof (rule nth_equalityI)
  show "length (map (\<lambda>i. xs ! i) [1..<length xs - 1]) = length (butlast (tl xs))"
    using assms by simp
next
  fix i assume "i < length (map (\<lambda>i. xs ! i) [1..<length xs - 1])"
  then have i: "i < length xs - 2" by simp
  then have "butlast (tl xs) ! i = tl xs ! i" by (simp add: nth_butlast)
  also have "\<dots> = xs ! Suc i" using i by (simp add: nth_tl)
  finally show "map (\<lambda>i. xs ! i) [1..<length xs - 1] ! i = butlast (tl xs) ! i"
    using i by simp
qed

lemma count_middle:
  "(if 2 < length xs then length (filter (\<lambda>i. P (xs ! i)) [1..<length xs - 1]) else 0)
     = length (filter P (butlast (tl xs)))"
proof (cases "2 < length xs")
  case True
  define idxs where "idxs = [1..<length xs - 1]"
  have "length (filter P (map (\<lambda>i. xs ! i) idxs)) = length (filter (\<lambda>i. P (xs ! i)) idxs)"
    by (simp add: filter_map comp_def)
  moreover have "map (\<lambda>i. xs ! i) idxs = butlast (tl xs)"
    unfolding idxs_def by (rule middle_items[OF True])
  ultimately have "length (filter (\<lambda>i. P (xs ! i)) idxs) = length (filter P (butlast (tl xs)))"
    by simp
  with True show ?thesis unfolding idxs_def by simp
next
  case False
  then have "butlast (tl xs) = []"
    by (cases xs; cases "tl xs"; cases "tl (tl xs)") auto
  with False show ?thesis by simp
qed

text \<open>
  C9. Every path that \<^verbatim>\<open>makePath\<close> returns has at least one item; its duration is the
  arrival of its last item minus the departure of its first item, and its number of
  changes is the number of items of type \<open>walking\<close> strictly between the first and the
  last, which is 0 when the path has at most two items.
\<close>

theorem makePath_metadata:
  assumes "makePath fuel x d s destination_idx countb reverse = Some (Inr p)"
  shows "items p \<noteq> [] \<and>
         duration p = int (item_arrival (last (items p))) - int (item_departure (hd (items p))) \<and>
         nb_changes p = length (filter (\<lambda>it. item_type it = walking) (butlast (tl (items p)))) \<and>
         (length (items p) \<le> 2 \<longrightarrow> nb_changes p = 0)"
proof -
  from assms obtain its where
    lp: "makePath_loop fuel x d s reverse
           \<lparr>mp_current_rpid = destination_idx, mp_countb = countb,
            mp_rpid_embarquement = invalid_idx x, mp_items = []\<rparr> = Some (Inr its)"
    and p: "p = finish_path d s reverse its"
    by (auto simp: makePath_def split: option.splits sum.splits)
  from makePath_loop_nonempty[OF lp] have ne: "its \<noteq> []" by auto
  define its1 where "its1 = (if \<not> reverse then map reverse_item (rev its) else its)"
  have ne1: "its1 \<noteq> []" using ne by (simp add: its1_def)
  have it: "items p = its1" by (simp add: p finish_path_def Let_def its1_def)
  have du: "duration p = int (item_arrival (last its1)) - int (item_departure (hd its1))"
    using ne by (simp add: p finish_path_def Let_def its1_def)
  have "nb_changes p = (if 2 < length its1
          then length (filter (\<lambda>i. item_type (its1 ! i) = walking) [1..<length its1 - 1]) else 0)"
    by (simp add: p finish_path_def Let_def its1_def)
  also have "\<dots> = length (filter (\<lambda>it. item_type it = walking) (butlast (tl its1)))"
    by (rule count_middle)
  finally have nb:
    "nb_changes p = length (filter (\<lambda>it. item_type it = walking) (butlast (tl its1)))" .
  have small: "length its1 \<le> 2 \<longrightarrow> butlast (tl its1) = []"
    by (cases its1; cases "tl its1"; cases "tl (tl its1)") auto
  show ?thesis using ne1 du nb small unfolding it by auto
qed

text \<open>
  The theorem at the instance: the journey from stop 0 to stop 1 is one item of public
  transport, from 08:00 to 08:10.
\<close>

theorem makePath_metadata_witness:
  "makePath (Suc (Suc (Suc 0))) ex_x ex_d ex_s3 1 1 False = Some (Inr ex_path) \<and>
   items ex_path \<noteq> [] \<and>
   duration ex_path
     = int (item_arrival (last (items ex_path))) - int (item_departure (hd (items ex_path))) \<and>
   nb_changes ex_path
     = length (filter (\<lambda>it. item_type it = walking) (butlast (tl (items ex_path)))) \<and>
   duration ex_path = 600 \<and> nb_changes ex_path = 0"
proof -
  have dv: "(200::nat) div Suc (Suc 0) = 100"
    by (simp add: numeral_2_eq_2[symmetric])
  have h: "makePath (Suc (Suc (Suc 0))) ex_x ex_d ex_s3 1 1 False = Some (Inr ex_path)"
    by (simp add: ex_defs path_defs Let_def dv cong: let_weak_cong prod.case_cong_weak)
  note th = makePath_metadata[OF h]
  have e: "duration ex_path = 600" "nb_changes ex_path = 0" by (simp_all add: ex_defs)
  show ?thesis
    by (intro conjI h e conjunct1[OF th] conjunct1[OF conjunct2[OF th]]
        conjunct1[OF conjunct2[OF conjunct2[OF th]]])
qed

section \<open>The boarding state at the start of a route\<close>

lemma same_but_zone_fields:
  assumes "same_but_zone sc sc'"
  shows "sc_t sc = sc_t sc'" "sc_embarquement sc = sc_embarquement sc'"
    "sc_workingDt sc = sc_workingDt sc'" "sc_it_st sc = sc_it_st sc'" "sc_end sc = sc_end sc'"
proof -
  from assms have e: "sc\<lparr>sc_l_zone := 0\<rparr> = sc'\<lparr>sc_l_zone := 0\<rparr>" by (simp add: same_but_zone_def)
  show "sc_t sc = sc_t sc'" using arg_cong[OF e, of sc_t] by simp
  show "sc_embarquement sc = sc_embarquement sc'" using arg_cong[OF e, of sc_embarquement] by simp
  show "sc_workingDt sc = sc_workingDt sc'" using arg_cong[OF e, of sc_workingDt] by simp
  show "sc_it_st sc = sc_it_st sc'" using arg_cong[OF e, of sc_it_st] by simp
  show "sc_end sc = sc_end sc'" using arg_cong[OF e, of sc_end] by simp
qed

lemma same_but_zone_eq:
  "same_but_zone sc sc' \<Longrightarrow> sc_l_zone sc = sc_l_zone sc' \<Longrightarrow> sc = sc'"
  by (cases sc; cases sc') (simp add: same_but_zone_def)

lemma zone_unread_step:
  assumes "zone_unread a b"
  shows "zone_unread (scan_route_point v x d gp route a rp) (scan_route_point v x d gp route b rp)"
proof (cases "sc_t (fst a) \<ge> 0")
  case True
  with assms have "fst a = fst b" by (simp add: zone_unread_def same_but_zone_eq)
  with assms have "a = b" by (simp add: zone_unread_def prod_eq_iff)
  then show ?thesis by (simp add: zone_unread_def same_but_zone_def)
next
  case False
  obtain sc s where a: "a = (sc, s)" by (cases a)
  obtain sc' where b: "b = (sc', s)" using assms a by (cases b) (simp add: zone_unread_def)
  have sb: "same_but_zone sc sc'" using assms a b by (simp add: zone_unread_def)
  note f = same_but_zone_fields[OF sb]
  have nt: "\<not> 0 \<le> sc_t sc" "\<not> 0 \<le> sc_t sc'" using False a f by simp_all
  show ?thesis
    unfolding a b
    using nt f sb
    by (simp add: scan_route_point_def Let_def zone_unread_def same_but_zone_def)
qed

lemma zone_unread_fold:
  assumes "zone_unread a b"
  shows "zone_unread (foldl (scan_route_point v x d gp route) a rps)
                     (foldl (scan_route_point v x d gp route) b rps)"
  using assms
proof (induction rps arbitrary: a b)
  case Nil
  then show ?case by simp
next
  case (Cons r rps)
  from Cons.IH[OF zone_unread_step[OF Cons.prems]] show ?case by simp
qed

lemma scan_route_alt:
  "scan_route v x d gp (sc, s) route =
     (let r = (if Q s ! r_idx route \<noteq> int_max \<and> Q s ! r_idx route \<noteq> - 1
                  \<and> routes_valides s ! r_idx route
               then foldl (scan_route_point v x d gp route) (init_route_scan v x sc, s)
                      (visitor_route_points v d route (nat (Q s ! r_idx route)))
               else (sc, s))
      in (fst r, (snd r)\<lparr>Q := (Q (snd r))[r_idx route := reset_queue_item v]\<rparr>))"
  by (simp add: scan_route_def Let_def case_prod_beta)

lemma scan_route_zone:
  "snd (scan_route v x d gp (sc\<lparr>sc_l_zone := z\<rparr>, s) route) = snd (scan_route v x d gp (sc, s) route) \<and>
   same_but_zone (fst (scan_route v x d gp (sc\<lparr>sc_l_zone := z\<rparr>, s) route))
                 (fst (scan_route v x d gp (sc, s) route))"
proof -
  define marked where
    "marked \<longleftrightarrow> Q s ! r_idx route \<noteq> int_max \<and> Q s ! r_idx route \<noteq> - 1 \<and> routes_valides s ! r_idx route"
  define rps where "rps = visitor_route_points v d route (nat (Q s ! r_idx route))"
  have alt: "\<And>sc. scan_route v x d gp (sc, s) route =
     (let r = (if marked then foldl (scan_route_point v x d gp route) (init_route_scan v x sc, s) rps
               else (sc, s))
      in (fst r, (snd r)\<lparr>Q := (Q (snd r))[r_idx route := reset_queue_item v]\<rparr>))"
    unfolding marked_def rps_def by (rule scan_route_alt)
  show ?thesis
  proof (cases marked)
    case True
    have "zone_unread (init_route_scan v x (sc\<lparr>sc_l_zone := z\<rparr>), s) (init_route_scan v x sc, s)"
      by (simp add: zone_unread_def init_route_scan_def same_but_zone_def)
    from zone_unread_fold[OF this]
    have zu: "zone_unread (foldl (scan_route_point v x d gp route) (init_route_scan v x (sc\<lparr>sc_l_zone := z\<rparr>), s) rps)
                      (foldl (scan_route_point v x d gp route) (init_route_scan v x sc, s) rps)" .
    show ?thesis using True zu
      by (simp add: alt Let_def zone_unread_def)
  next
    case False
    then show ?thesis
      by (simp add: alt Let_def same_but_zone_def)
  qed
qed

text \<open>
  C3, as the code has it. At the start of the scan of a marked route the boarded trip is
  set to none (\<open>- 1\<close>), the boarding route point to the initial value of the visitor
  and the working datetime to the worst value of the direction. The local traffic zone
  \<^verbatim>\<open>l_zone\<close> is not set again: it keeps the zone of the last boarding (it is none only
  until the first boarding of the loop). That value is never read before the next
  boarding overwrites it: whatever \<^verbatim>\<open>l_zone\<close> holds when a route is entered, the scan
  of the route leaves the same engine state and the same locals but, at most, \<^verbatim>\<open>l_zone\<close>.
\<close>

theorem route_scan_init:
  "sc_t (init_route_scan v x sc) = - 1 \<and>
   sc_embarquement (init_route_scan v x sc) = embarquement_init x v \<and>
   sc_workingDt (init_route_scan v x sc) = working_datetime_init x v \<and>
   sc_l_zone (init_route_scan v x sc) = sc_l_zone sc \<and>
   snd (scan_route v x d gp (sc\<lparr>sc_l_zone := z\<rparr>, s) route) = snd (scan_route v x d gp (sc, s) route) \<and>
   same_but_zone (fst (scan_route v x d gp (sc\<lparr>sc_l_zone := z\<rparr>, s) route))
                 (fst (scan_route v x d gp (sc, s) route))"
  using scan_route_zone
  by (simp add: init_route_scan_def)

text \<open>
  The claim as stated fails at the instance: the scan of the route boards the trip at a
  stop-time of zone 5, and the scan of the next marked route then starts with
  \<^verbatim>\<open>l_zone\<close> equal to 5, not to none.
\<close>

theorem route_scan_init_counterexample:
  "sc_l_zone (init_route_scan raptor_visitor ex_x
     (fst (scan_route raptor_visitor ex_x ex_dz False (scan_init raptor_visitor ex_x, ex_s2)
             (routes ex_dz ! 0)))) = 5 \<and>
   sc_l_zone (init_route_scan raptor_visitor ex_x
     (fst (scan_route raptor_visitor ex_x ex_dz False (scan_init raptor_visitor ex_x, ex_s2)
             (routes ex_dz ! 0)))) \<noteq> uint32_max"
  by (simp add: ex_defs loop_defs Let_def cong: let_weak_cong prod.case_cong_weak)

section \<open>Meters and seconds\<close>


section \<open>The invariant of the forward round loop\<close>

subsection \<open>Writing a label\<close>










subsection \<open>The footpaths and the route-point connections\<close>















subsection \<open>The route scan\<close>










subsection \<open>The rounds\<close>










section \<open>Termination of the round loop\<close>



section \<open>Label monotonicity across rounds\<close>




end
